theory Spec2Isabelle
  imports Main "HOL-Library.Sublist"
begin

section \<open>Python values, errors and string primitives\<close>

text \<open>
  The helper module \<open>cloudinit/sources/helpers/vultr.py\<close> works on Python strings,
  on dictionaries decoded from JSON and on two module-level caches. A Python \<open>str\<close> is
  modelled as a \<open>string\<close> in which every \<open>char\<close> stands for one code point in the range
  U+0000 .. U+00FF; the code points below 128 are the ASCII ones. Every exception the
  module can raise is a constructor of \<open>error\<close>, and a function that may raise returns
  \<open>error + 'a\<close> with \<open>Inl\<close> for the exception.
\<close>

datatype error =
    RuntimeError
  | KeyError
  | TypeError
  | IndexError
  | NameError
  | OSError
  | UrlError
  | UnicodeEncodeError
  | UnicodeDecodeError
  | JSONDecodeError

text \<open>
  Values that \<open>json.loads\<close> produces and that the configuration templates are built
  from. A dictionary is an association list in insertion order; all keys are strings.
\<close>

datatype pyval =
    PNone
  | PBool bool
  | PInt int
  | PStr string
  | PList "pyval list"
  | PDict "(string \<times> pyval) list"

text \<open>Python's \<open>sub in s\<close> on strings: \<open>sub\<close> occurs in \<open>s\<close> as a contiguous piece.\<close>

fun str_in :: "string \<Rightarrow> string \<Rightarrow> bool" where
  "str_in sub [] = (sub = [])"
| "str_in sub (c # cs) = (prefix sub (c # cs) \<or> str_in sub cs)"

text \<open>
  \<open>str.isspace\<close> on one code point below 256, and \<open>str.strip()\<close> with no argument.
\<close>

definition isspace :: "char \<Rightarrow> bool" where
  "isspace c = ((of_char c :: nat) \<in> set [9, 10, 11, 12, 13, 28, 29, 30, 31, 32, 133, 160])"

definition strip :: "string \<Rightarrow> string" where
  "strip s = rev (dropWhile isspace (rev (dropWhile isspace s)))"

text \<open>
  \<open>re.sub(r'.+root=', '', content)\<close>. The dot matches every character except the
  newline (code 10). At a position the greedy \<open>.+\<close> first takes the whole run of
  non-newline characters and then gives characters back one at a time, down to one,
  until the literal \<open>root=\<close> follows: \<open>backtrack\<close> returns the length of the match.
  \<open>re_sub skip s\<close> scans left to right: a match is replaced by the empty string and the
  scan resumes after it (\<open>skip\<close> counts the characters of the match still to drop),
  a position with no match keeps its character.
\<close>

definition dot_run :: "string \<Rightarrow> nat" where
  "dot_run s = length (takeWhile (\<lambda>c. c \<noteq> CHR 0x0A) s)"

fun backtrack :: "nat \<Rightarrow> string \<Rightarrow> nat option" where
  "backtrack 0 s = None"
| "backtrack (Suc k) s =
     (if prefix ''root='' (drop (Suc k) s) then Some (Suc k + 5) else backtrack k s)"

definition match_at :: "string \<Rightarrow> nat option" where
  "match_at s = backtrack (dot_run s) s"

fun re_sub :: "nat \<Rightarrow> string \<Rightarrow> string" where
  "re_sub skip [] = []"
| "re_sub skip (c # cs) =
     (if 0 < skip then re_sub (skip - 1) cs
      else (case match_at (c # cs) of
              Some n \<Rightarrow> re_sub (n - 1) cs
            | None \<Rightarrow> c # re_sub 0 cs))"

section \<open>The host: system information and files\<close>

text \<open>
  What the module reads from the machine: the DMI strings (\<open>dmi.read_dmi_data\<close>
  returns a string or \<open>None\<close>), the text of \<open>/proc/cmdline\<close> (\<open>None\<close> when the path does
  not exist), and the nodes \<open>/etc/vultr\<close>, \<open>/etc/vultr/cache\<close> and
  \<open>/etc/vultr/cache/network\<close>.
\<close>

datatype node = Absent | RegularFile | Directory

record host =
  dmi_data :: "string \<Rightarrow> string option"
  proc_cmdline :: "string option"
  etc_vultr :: node
  etc_vultr_cache :: node
  cache_network :: "string option"

record sysinfo =
  manufacturer :: "string option"
  subid :: "string option"
  product :: "string option"
  family :: "string option"

definition get_sysinfo :: "host \<Rightarrow> sysinfo" where
  "get_sysinfo h =
     \<lparr> manufacturer = dmi_data h ''system-manufacturer'',
       subid = dmi_data h ''system-serial-number'',
       product = dmi_data h ''system-product-name'',
       family = dmi_data h ''system-family'' \<rparr>"

text \<open>
  \<open>get_kernel_parameters\<close>: the last line indexes the substituted string with \<open>[1]\<close>,
  which is its second character (a string of length one) and raises \<open>IndexError\<close> when
  the string has fewer than two characters.
\<close>

definition get_kernel_parameters :: "host \<Rightarrow> error + string" where
  "get_kernel_parameters h =
     (case proc_cmdline h of
        None \<Rightarrow> Inr ''''
      | Some content \<Rightarrow>
          if \<not> str_in ''root='' content then Inr ''''
          else (let r = re_sub 0 content
                in if length r \<le> 1 then Inl IndexError else Inr (strip [r ! 1])))"

definition is_vultr :: "host \<Rightarrow> error + bool" where
  "is_vultr h =
     (let si = get_sysinfo h in
      if manufacturer si = Some ''Vultr'' then Inr True
      else (case get_kernel_parameters h of
              Inl e \<Rightarrow> Inl e
            | Inr kp \<Rightarrow>
                if str_in ''vultr'' kp then Inr True
                else if etc_vultr h \<noteq> Absent \<and> etc_vultr h = Directory then Inr True
                else Inr False))"

section \<open>The network cache store\<close>

text \<open>
  The names bound at module level of \<open>vultr.py\<close>: its imports (\<open>import json\<close>,
  \<open>import re\<close>, \<open>from os import path\<close>, \<open>import base64\<close>, \<open>log\<close>, \<open>url_helper\<close>,
  \<open>dmi\<close>, \<open>net\<close>), its constants and its functions. \<open>from os import path\<close> binds
  \<open>path\<close> only, and \<open>os\<close> is not a builtin, so evaluating the name \<open>os\<close> raises
  \<open>NameError\<close>.
\<close>

definition module_globals :: "string list" where
  "module_globals =
     [''json'', ''re'', ''path'', ''base64'', ''log'', ''url_helper'', ''dmi'', ''net'',
      ''LOGGER'', ''API_MAP'', ''MAC_TO_NICS'', ''METADATA'',
      ''get_metadata'', ''get_sysinfo'', ''get_kernel_parameters'', ''is_vultr'',
      ''get_cached_network_config'', ''cache_network_config'', ''read_metadata'',
      ''get_url'', ''fetch_metadata'', ''get_interface_name'',
      ''generate_network_config'', ''generate_config'']"

definition load_global :: "string \<Rightarrow> error + unit" where
  "load_global name = (if name \<in> set module_globals then Inr () else Inl NameError)"

text \<open>
  \<open>os.makedirs("/etc/vultr/cache/", exist_ok=True)\<close>: fails when a component of the
  path is a regular file, and otherwise leaves both directories in place.
\<close>

definition makedirs_cache :: "host \<Rightarrow> error + host" where
  "makedirs_cache h =
     (if etc_vultr h = RegularFile \<or> etc_vultr_cache h = RegularFile then Inl OSError
      else Inr (h\<lparr>etc_vultr := Directory, etc_vultr_cache := Directory\<rparr>))"

definition get_cached_network_config :: "host \<Rightarrow> (error + string) \<times> host" where
  "get_cached_network_config h =
     (case load_global ''os'' of
        Inl e \<Rightarrow> (Inl e, h)
      | Inr _ \<Rightarrow>
          (case makedirs_cache h of
             Inl e \<Rightarrow> (Inl e, h)
           | Inr h1 \<Rightarrow>
               (case cache_network h1 of
                  None \<Rightarrow> (Inr '''', h1)
                | Some content \<Rightarrow> (Inr content, h1))))"

text \<open>
  \<open>cache_network_config\<close>; \<open>json.dumps\<close> belongs to the standard library and is a
  parameter of the model.
\<close>

definition cache_network_config ::
  "(pyval \<Rightarrow> string) \<Rightarrow> pyval \<Rightarrow> host \<Rightarrow> (error + unit) \<times> host" where
  "cache_network_config json_dumps config h =
     (case load_global ''os'' of
        Inl e \<Rightarrow> (Inl e, h)
      | Inr _ \<Rightarrow>
          (case makedirs_cache h of
             Inl e \<Rightarrow> (Inl e, h)
           | Inr h1 \<Rightarrow> (Inr (), h1\<lparr>cache_network := Some (json_dumps config)\<rparr>)))"

section \<open>State, outside world and sequencing\<close>

text \<open>
  \<open>params\<close> is the request configuration the data source passes in: base URL,
  timeout, retry count and delay between retries. A \<open>response\<close> is what
  \<open>url_helper.readurl\<close> returns: \<open>ok\<close> is the value of \<open>response.ok()\<close> and \<open>contents\<close>
  is the body decoded by \<open>response.contents.decode()\<close>, \<open>None\<close> when the body is not
  valid UTF-8 and the decoding raises.
\<close>

record params =
  url :: string
  timeout :: int
  retries :: int
  wait :: int

record response =
  ok :: bool
  code :: int
  contents :: "string option"

text \<open>
  The dictionary \<open>get_metadata\<close> builds has nine fixed keys; eight values are the
  fetched texts and \<open>v1\<close> is the decoded JSON document.
\<close>

record metadata =
  startup_script :: string
  hostname :: string
  user_data :: string
  mdisk_mode :: string
  root_password :: string
  ssh_keys :: string
  ipv6_dns1 :: string
  ipv6_addr :: string
  v1 :: pyval

text \<open>
  The module's two globals \<open>METADATA\<close> and \<open>MAC_TO_NICS\<close> (\<open>None\<close> at import time),
  with two logs that make the calls to the outside observable: the requests handed to
  \<open>readurl\<close>, oldest first, and the number of calls of \<open>net.get_interfaces_by_mac\<close>.
\<close>

record state =
  METADATA :: "metadata option"
  MAC_TO_NICS :: "(string \<times> string) list option"
  requests :: "params list"
  os_queries :: nat

text \<open>
  The collaborators outside the module: \<open>readurl\<close> answers a request given the
  requests made before it, \<open>get_interfaces_by_mac\<close> answers the query with the given
  number (counted from 0), and \<open>json_loads\<close> is the standard library's parser.
\<close>

record env =
  readurl :: "params list \<Rightarrow> params \<Rightarrow> error + response"
  get_interfaces_by_mac :: "nat \<Rightarrow> error + (string \<times> string) list"
  json_loads :: "string \<Rightarrow> error + pyval"

text \<open>Statement after statement: the first exception ends the function.\<close>

definition and_then ::
  "(state \<Rightarrow> (error + 'a) \<times> state) \<Rightarrow> ('a \<Rightarrow> state \<Rightarrow> (error + 'b) \<times> state)
   \<Rightarrow> state \<Rightarrow> (error + 'b) \<times> state" where
  "and_then m f s = (case m s of (Inl e, s1) \<Rightarrow> (Inl e, s1) | (Inr a, s1) \<Rightarrow> f a s1)"

definition lift :: "error + 'a \<Rightarrow> state \<Rightarrow> (error + 'a) \<times> state" where
  "lift r s = (r, s)"

section \<open>Metadata fetcher\<close>

definition API_MAP :: "(string \<times> string) list" where
  "API_MAP =
     [(''startup-script'', ''/latest/startup-script''),
      (''hostname'', ''/latest/meta-data/hostname''),
      (''user-data'', ''/latest/user-data''),
      (''mdisk-mode'', ''/v1/internal/mdisk-mode''),
      (''root-password'', ''/v1/internal/root-password''),
      (''ssh-keys'', ''/current/ssh-keys''),
      (''ipv6-dns1'', ''/current/ipv6-dns1''),
      (''ipv6-addr'', ''/current/meta-data/ipv6-addr''),
      (''v1.json'', ''/v1.json'')]"

definition get_url :: "string \<Rightarrow> string \<Rightarrow> string" where
  "get_url u flag =
     (case map_of API_MAP flag of
        Some p \<Rightarrow> u @ p
      | None \<Rightarrow>
          if str_in ''app-'' flag \<or> str_in ''md-'' flag then u @ ''/v1/internal/'' @ flag
          else '''')"

text \<open>
  \<open>read_metadata\<close>: one call of \<open>readurl\<close>, logged. On a response that is not ok the
  source formats a message with two \<open>%s\<close> from one argument, which raises \<open>TypeError\<close>
  before the \<open>RuntimeError\<close> is built.
\<close>

definition read_metadata :: "env \<Rightarrow> params \<Rightarrow> state \<Rightarrow> (error + string) \<times> state" where
  "read_metadata env p s =
     (let s1 = s\<lparr>requests := requests s @ [p]\<rparr> in
      case readurl env (requests s) p of
        Inl e \<Rightarrow> (Inl e, s1)
      | Inr r \<Rightarrow>
          if \<not> ok r then (Inl TypeError, s1)
          else (case contents r of
                  None \<Rightarrow> (Inl UnicodeDecodeError, s1)
                | Some text \<Rightarrow> (Inr text, s1)))"

definition fetch_metadata ::
  "env \<Rightarrow> string \<Rightarrow> params \<Rightarrow> state \<Rightarrow> (error + string) \<times> state" where
  "fetch_metadata env flag p s =
     (let req = p\<lparr>url := get_url (url p) flag\<rparr> in
      if url req = '''' then (Inl RuntimeError, s) else read_metadata env req s)"

text \<open>
  \<open>get_metadata\<close>: \<open>not METADATA\<close> holds for \<open>None\<close> only, since the dictionary that
  is stored has nine keys. The assignment to the global happens after the whole
  dictionary display has been evaluated.
\<close>

definition get_metadata :: "env \<Rightarrow> params \<Rightarrow> state \<Rightarrow> (error + metadata) \<times> state" where
  "get_metadata env p s =
     (case METADATA s of
        Some md \<Rightarrow> (Inr md, s)
      | None \<Rightarrow>
          and_then (fetch_metadata env ''startup-script'' p) (\<lambda>a1.
          and_then (fetch_metadata env ''hostname'' p) (\<lambda>a2.
          and_then (fetch_metadata env ''user-data'' p) (\<lambda>a3.
          and_then (fetch_metadata env ''mdisk-mode'' p) (\<lambda>a4.
          and_then (fetch_metadata env ''root-password'' p) (\<lambda>a5.
          and_then (fetch_metadata env ''ssh-keys'' p) (\<lambda>a6.
          and_then (fetch_metadata env ''ipv6-dns1'' p) (\<lambda>a7.
          and_then (fetch_metadata env ''ipv6-addr'' p) (\<lambda>a8.
          and_then (fetch_metadata env ''v1.json'' p) (\<lambda>a9.
          and_then (lift (json_loads env a9)) (\<lambda>doc.
            (\<lambda>s1. let md = \<lparr> startup_script = a1, hostname = a2, user_data = a3,
                                mdisk_mode = a4, root_password = a5, ssh_keys = a6,
                                ipv6_dns1 = a7, ipv6_addr = a8, v1 = doc \<rparr>
                  in (Inr md, s1\<lparr>METADATA := Some md\<rparr>)))))))))))) s)"

section \<open>Interface resolver\<close>

text \<open>
  \<open>mac in MAC_TO_NICS\<close> and \<open>MAC_TO_NICS.get(mac)\<close>: the keys of the mapping are
  strings, a list or a dictionary cannot be hashed, and any other value is not a key.
\<close>

definition mac_lookup :: "(string \<times> string) list \<Rightarrow> pyval \<Rightarrow> error + string option" where
  "mac_lookup nics mac =
     (case mac of
        PStr k \<Rightarrow> Inr (map_of nics k)
      | PList _ \<Rightarrow> Inl TypeError
      | PDict _ \<Rightarrow> Inl TypeError
      | _ \<Rightarrow> Inr None)"

text \<open>
  \<open>get_interface_name\<close>: \<open>not MAC_TO_NICS\<close> holds for \<open>None\<close> and for the empty
  dictionary; in both cases the operating system is queried and the answer stored.
\<close>

definition get_interface_name ::
  "env \<Rightarrow> pyval \<Rightarrow> state \<Rightarrow> (error + string option) \<times> state" where
  "get_interface_name env mac s =
     (if MAC_TO_NICS s = None \<or> MAC_TO_NICS s = Some [] then
        (let s1 = s\<lparr>os_queries := Suc (os_queries s)\<rparr> in
         case get_interfaces_by_mac env (os_queries s) of
           Inl e \<Rightarrow> (Inl e, s1)
         | Inr nics \<Rightarrow> (mac_lookup nics mac, s1\<lparr>MAC_TO_NICS := Some nics\<rparr>))
      else
        (case MAC_TO_NICS s of
           Some nics \<Rightarrow> (mac_lookup nics mac, s)
         | None \<Rightarrow> (Inr None, s)))"

section \<open>Network synthesizer\<close>

text \<open>
  The three operations the synthesizer applies to decoded JSON: \<open>v[key]\<close> with a
  string key, \<open>len(v)\<close> and \<open>v[i]\<close> with an integer index. Only a dictionary can be
  subscripted with a string; only a list or a string has positions.
\<close>

definition py_getitem :: "pyval \<Rightarrow> string \<Rightarrow> error + pyval" where
  "py_getitem v key =
     (case v of
        PDict d \<Rightarrow> (case map_of d key of Some x \<Rightarrow> Inr x | None \<Rightarrow> Inl KeyError)
      | _ \<Rightarrow> Inl TypeError)"

definition py_len :: "pyval \<Rightarrow> error + nat" where
  "py_len v =
     (case v of
        PList xs \<Rightarrow> Inr (length xs)
      | PStr s \<Rightarrow> Inr (length s)
      | PDict d \<Rightarrow> Inr (length d)
      | _ \<Rightarrow> Inl TypeError)"

definition py_index :: "pyval \<Rightarrow> nat \<Rightarrow> error + pyval" where
  "py_index v i =
     (case v of
        PList xs \<Rightarrow> (if i < length xs then Inr (xs ! i) else Inl IndexError)
      | PStr s \<Rightarrow> (if i < length s then Inr (PStr [s ! i]) else Inl IndexError)
      | PDict d \<Rightarrow> Inl KeyError
      | _ \<Rightarrow> Inl TypeError)"

definition nameserver_block :: pyval where
  "nameserver_block =
     PDict [(''type'', PStr ''nameserver''), (''address'', PList [PStr ''108.61.10.10''])]"

text \<open>The two dictionary displays bound to \<open>netcfg\<close>, for interface 0 and interface 1.\<close>

definition primary_netcfg :: "string \<Rightarrow> pyval \<Rightarrow> pyval \<Rightarrow> pyval \<Rightarrow> pyval \<Rightarrow> pyval" where
  "primary_netcfg interface_name mac address gateway netmask =
     PDict [(''name'', PStr interface_name),
            (''type'', PStr ''physical''),
            (''mac_address'', mac),
            (''accept-ra'', PInt 1),
            (''subnets'', PList
               [PDict [(''type'', PStr ''static''),
                       (''control'', PStr ''auto''),
                       (''address'', address),
                       (''gateway'', gateway),
                       (''netmask'', netmask)],
                PDict [(''type'', PStr ''dhcp6''),
                       (''control'', PStr ''auto'')]])]"

definition secondary_netcfg :: "string \<Rightarrow> pyval \<Rightarrow> pyval \<Rightarrow> pyval \<Rightarrow> pyval" where
  "secondary_netcfg interface_name mac address netmask =
     PDict [(''name'', PStr interface_name),
            (''type'', PStr ''physical''),
            (''mac_address'', mac),
            (''accept-ra'', PInt 1),
            (''subnets'', PList
               [PDict [(''type'', PStr ''static''),
                       (''control'', PStr ''auto''),
                       (''address'', address),
                       (''netmask'', netmask)]])]"

text \<open>
  The body of the first \<open>if\<close> of \<open>generate_network_config\<close>, from the resolution of the
  MAC to the finished \<open>netcfg\<close>: \<open>not interface_name\<close> holds for \<open>None\<close> and for the
  empty string.
\<close>

definition primary_interface :: "env \<Rightarrow> pyval \<Rightarrow> state \<Rightarrow> (error + pyval) \<times> state" where
  "primary_interface env interface =
     and_then (lift (py_getitem interface ''mac'')) (\<lambda>mac.
     and_then (get_interface_name env mac) (\<lambda>interface_name.
       case interface_name of
         None \<Rightarrow> lift (Inl RuntimeError)
       | Some name \<Rightarrow>
           if name = '''' then lift (Inl RuntimeError)
           else
             and_then (lift (py_getitem interface ''ipv4'')) (\<lambda>ipv4.
             and_then (lift (py_getitem ipv4 ''address'')) (\<lambda>address.
             and_then (lift (py_getitem ipv4 ''gateway'')) (\<lambda>gateway.
             and_then (lift (py_getitem ipv4 ''netmask'')) (\<lambda>netmask.
               lift (Inr (primary_netcfg name mac address gateway netmask))))))))"

text \<open>The body of the second \<open>if\<close>: the same steps, and no read of the gateway.\<close>

definition secondary_interface :: "env \<Rightarrow> pyval \<Rightarrow> state \<Rightarrow> (error + pyval) \<times> state" where
  "secondary_interface env interface =
     and_then (lift (py_getitem interface ''mac'')) (\<lambda>mac.
     and_then (get_interface_name env mac) (\<lambda>interface_name.
       case interface_name of
         None \<Rightarrow> lift (Inl RuntimeError)
       | Some name \<Rightarrow>
           if name = '''' then lift (Inl RuntimeError)
           else
             and_then (lift (py_getitem interface ''ipv4'')) (\<lambda>ipv4.
             and_then (lift (py_getitem ipv4 ''address'')) (\<lambda>address.
             and_then (lift (py_getitem ipv4 ''netmask'')) (\<lambda>netmask.
               lift (Inr (secondary_netcfg name mac address netmask)))))))"

definition network_doc :: "pyval list \<Rightarrow> pyval" where
  "network_doc blocks = PDict [(''version'', PInt 1), (''config'', PList blocks)]"

definition generate_network_config ::
  "env \<Rightarrow> params \<Rightarrow> state \<Rightarrow> (error + pyval) \<times> state" where
  "generate_network_config env config =
     and_then (get_metadata env config) (\<lambda>md.
     and_then (lift (py_getitem (v1 md) ''interfaces'')) (\<lambda>interfaces.
     and_then (lift (py_len interfaces)) (\<lambda>n.
     and_then
       (if 0 < n then
          and_then (lift (py_index interfaces 0)) (\<lambda>interface.
          and_then (primary_interface env interface) (\<lambda>netcfg. lift (Inr [netcfg])))
        else lift (Inr [])) (\<lambda>first.
     and_then
       (if 1 < n then
          and_then (lift (py_index interfaces 1)) (\<lambda>interface.
          and_then (secondary_interface env interface) (\<lambda>netcfg. lift (Inr [netcfg])))
        else lift (Inr [])) (\<lambda>second.
       lift (Inr (network_doc (nameserver_block # first @ second))))))))"

section \<open>Vendor configuration synthesizer\<close>

text \<open>
  \<open>str.encode("ascii")\<close> and \<open>bytes.decode("ascii")\<close> accept the code points below 128
  only. \<open>base64.b64encode\<close> turns three bytes into four symbols of the standard
  alphabet and pads the last group with \<open>=\<close>.
\<close>

definition is_ascii :: "string \<Rightarrow> bool" where
  "is_ascii s = list_all (\<lambda>c. (of_char c :: nat) < 128) s"

definition encode_ascii :: "string \<Rightarrow> error + string" where
  "encode_ascii s = (if is_ascii s then Inr s else Inl UnicodeEncodeError)"

definition decode_ascii :: "string \<Rightarrow> error + string" where
  "decode_ascii s = (if is_ascii s then Inr s else Inl UnicodeDecodeError)"

definition b64_alphabet :: string where
  "b64_alphabet = ''ABCDEFGHIJKLMNOPQRSTUVWXYZabcdefghijklmnopqrstuvwxyz0123456789+/''"

definition b64_sym :: "nat \<Rightarrow> char" where
  "b64_sym n = b64_alphabet ! (n mod 64)"

fun b64encode :: "string \<Rightarrow> string" where
  "b64encode (a # b # c # rest) =
     (let x = (of_char a :: nat); y = (of_char b :: nat); z = (of_char c :: nat) in
      [b64_sym (x div 4), b64_sym ((x mod 4) * 16 + y div 16),
       b64_sym ((y mod 16) * 4 + z div 64), b64_sym (z mod 64)] @ b64encode rest)"
| "b64encode [a, b] =
     (let x = (of_char a :: nat); y = (of_char b :: nat) in
      [b64_sym (x div 4), b64_sym ((x mod 4) * 16 + y div 16),
       b64_sym ((y mod 16) * 4), CHR ''=''])"
| "b64encode [a] =
     (let x = (of_char a :: nat) in
      [b64_sym (x div 4), b64_sym ((x mod 4) * 16), CHR ''='', CHR ''=''])"
| "b64encode [] = []"

text \<open>
  \<open>d[key] = v\<close> on a dictionary keeps the position of a key already present and puts
  a new key last; \<open>a + b\<close> concatenates two lists or two strings.
\<close>

fun dict_set :: "(string \<times> pyval) list \<Rightarrow> string \<Rightarrow> pyval \<Rightarrow> (string \<times> pyval) list" where
  "dict_set [] key v = [(key, v)]"
| "dict_set ((k, x) # d) key v = (if k = key then (k, v) # d else (k, x) # dict_set d key v)"

definition py_add :: "pyval \<Rightarrow> pyval \<Rightarrow> error + pyval" where
  "py_add a b =
     (case (a, b) of
        (PList xs, PList ys) \<Rightarrow> Inr (PList (xs @ ys))
      | (PStr xs, PStr ys) \<Rightarrow> Inr (PStr (xs @ ys))
      | _ \<Rightarrow> Inl TypeError)"

definition write_files_entry :: "string \<Rightarrow> pyval" where
  "write_files_entry script =
     PDict [(''encoding'', PStr ''b64''),
            (''content'', PStr script),
            (''owner'', PStr ''root:root''),
            (''path'', PStr ''/tmp/startup-vultr.sh''),
            (''permissions'', PStr ''0755'')]"

definition config_template :: "string \<Rightarrow> pyval \<Rightarrow> (string \<times> pyval) list" where
  "config_template rootpw network =
     [(''package_upgrade'', PStr ''true''),
      (''disable_root'', PInt 0),
      (''ssh_pwauth'', PInt 1),
      (''chpasswd'', PDict [(''expire'', PBool False),
                            (''list'', PList [PStr (''root:'' @ rootpw)])]),
      (''system_info'', PDict [(''default_user'', PDict [(''name'', PStr ''root'')])]),
      (''network'', network)]"

text \<open>
  \<open>generate_config\<close>. The template is the dictionary display of the source, which has
  no \<open>runcmd\<close> entry; the branch for a startup script reads
  \<open>config_template['runcmd']\<close> on the right of its last assignment.
\<close>

definition generate_config :: "env \<Rightarrow> params \<Rightarrow> state \<Rightarrow> (error + pyval) \<times> state" where
  "generate_config env config =
     and_then (get_metadata env config) (\<lambda>md.
     and_then
       (lift (if startup_script md \<noteq> '''' then
                (case encode_ascii (startup_script md) of
                   Inl e \<Rightarrow> Inl e
                 | Inr bytes \<Rightarrow> decode_ascii (b64encode bytes))
              else Inr (startup_script md))) (\<lambda>script.
     and_then (generate_network_config env config) (\<lambda>network.
       let template = config_template (root_password md) network in
       if script \<noteq> '''' then
         (let template1 = dict_set template ''write_files'' (PList [write_files_entry script]) in
          and_then (lift (py_getitem (PDict template1) ''runcmd'')) (\<lambda>runcmd.
          and_then (lift (py_add runcmd
                       (PList [PStr ''/tmp/startup-vultr.sh &> /var/log/vultr-boot.log'',
                               PStr ''rm -f /tmp/startup-vultr.sh'']))) (\<lambda>runcmd1.
            lift (Inr (PDict (dict_set template1 ''runcmd'' runcmd1))))))
       else lift (Inr (PDict template)))))"

section \<open>Concrete machines and metadata services\<close>

text \<open>
  A bare-metal host whose firmware does not name the platform, booted with the
  platform's token in the \<open>root=\<close> parameter, and the same host with nothing after
  \<open>root=\<close> on its command line. Neither has the marker directory.
\<close>

definition baremetal_host :: host where
  "baremetal_host =
     \<lparr> dmi_data = (\<lambda>key. if key = ''system-manufacturer'' then Some ''QEMU'' else None),
       proc_cmdline = Some (''BOOT_IMAGE=/vmlinuz root=LABEL=vultr ro'' @ [CHR 0x0A]),
       etc_vultr = Absent,
       etc_vultr_cache = Absent,
       cache_network = None \<rparr>"

definition bare_root_host :: host where
  "bare_root_host = baremetal_host\<lparr>proc_cmdline := Some (''console=ttyS0 root='' @ [CHR 0x0A])\<rparr>"

text \<open>
  The second instance document of the unit tests, reduced to the keys the module
  reads, served by a metadata service that answers every request; the startup script,
  the URLs that answer with a failure status and the interfaces the operating system
  reports are parameters.
\<close>

definition public_interface :: pyval where
  "public_interface =
     PDict [(''ipv4'', PDict [(''address'', PStr ''45.76.7.171''),
                              (''gateway'', PStr ''45.76.6.1''),
                              (''netmask'', PStr ''255.255.254.0'')]),
            (''mac'', PStr ''56:00:03:1b:4e:ca''),
            (''network-type'', PStr ''public'')]"

definition private_interface :: pyval where
  "private_interface =
     PDict [(''ipv4'', PDict [(''address'', PStr ''10.1.112.3''),
                              (''gateway'', PStr ''''),
                              (''netmask'', PStr ''255.255.240.0'')]),
            (''mac'', PStr ''5a:00:03:1b:4e:ca''),
            (''network-type'', PStr ''private'')]"

definition instance_doc :: pyval where
  "instance_doc =
     PDict [(''hostname'', PStr ''CLOUDINIT_2''),
            (''interfaces'', PList [public_interface, private_interface])]"

definition INTERFACE_MAP :: "(string \<times> string) list" where
  "INTERFACE_MAP =
     [(''56:00:03:15:c4:65'', ''eth0''),
      (''56:00:03:1b:4e:ca'', ''eth0''),
      (''5a:00:03:1b:4e:ca'', ''eth1'')]"

definition service_body :: "string \<Rightarrow> string \<Rightarrow> string" where
  "service_body script u =
     (if u = ''http://169.254.169.254/latest/startup-script'' then script
      else if u = ''http://169.254.169.254/v1/internal/root-password'' then ''hunter2''
      else if u = ''http://169.254.169.254/v1.json'' then ''<instance document>''
      else '''')"

definition service :: "string \<Rightarrow> string list \<Rightarrow> (string \<times> string) list \<Rightarrow> env" where
  "service script failing nics =
     \<lparr> readurl = (\<lambda>earlier p.
         Inr \<lparr> ok = (url p \<notin> set failing),
               code = (if url p \<in> set failing then 404 else 200),
               contents = Some (service_body script (url p)) \<rparr>),
       get_interfaces_by_mac = (\<lambda>n. Inr nics),
       json_loads = (\<lambda>text. if text = ''<instance document>'' then Inr instance_doc
                             else Inl JSONDecodeError) \<rparr>"

definition request_params :: params where
  "request_params = \<lparr> url = ''http://169.254.169.254'', timeout = 10, retries = 3, wait = 1 \<rparr>"

definition fresh_state :: state where
  "fresh_state = \<lparr> METADATA = None, MAC_TO_NICS = None, requests = [], os_queries = 0 \<rparr>"

text \<open>The bundle that \<open>get_metadata\<close> assembles from this service.\<close>

definition test_bundle :: "string \<Rightarrow> metadata" where
  "test_bundle script =
     \<lparr> startup_script = script, hostname = '''', user_data = '''', mdisk_mode = '''',
       root_password = ''hunter2'', ssh_keys = '''', ipv6_dns1 = '''', ipv6_addr = '''',
       v1 = instance_doc \<rparr>"

section \<open>Notions used in the statements\<close>

text \<open>
  The mapping \<open>get_interface_name\<close> consults in a state: the cached one when it is
  not empty, and otherwise the answer of the next query of the operating system.
\<close>

definition nics_in_use :: "env \<Rightarrow> state \<Rightarrow> (string \<times> string) list" where
  "nics_in_use env s =
     (if MAC_TO_NICS s = None \<or> MAC_TO_NICS s = Some [] then
        (case get_interfaces_by_mac env (os_queries s) of Inr nics \<Rightarrow> nics | Inl e \<Rightarrow> [])
      else (case MAC_TO_NICS s of Some nics \<Rightarrow> nics | None \<Rightarrow> []))"

text \<open>
  An interface descriptor resolves when its \<open>mac\<close> is a string that the mapping sends
  to a non-empty name; it has an IPv4 block with the given keys when \<open>ipv4\<close> is a
  dictionary that holds each of them.
\<close>

definition resolves :: "(string \<times> string) list \<Rightarrow> pyval \<Rightarrow> bool" where
  "resolves nics interface =
     (case py_getitem interface ''mac'' of
        Inr (PStr mac) \<Rightarrow> (case map_of nics mac of Some name \<Rightarrow> name \<noteq> '''' | None \<Rightarrow> False)
      | _ \<Rightarrow> False)"

definition has_ipv4 :: "string list \<Rightarrow> pyval \<Rightarrow> bool" where
  "has_ipv4 keys interface =
     (case py_getitem interface ''ipv4'' of
        Inr (PDict d) \<Rightarrow> list_all (\<lambda>k. map_of d k \<noteq> None) keys
      | _ \<Rightarrow> False)"

text \<open>
  The fetches of \<open>get_metadata\<close> one after the other for a list of field names: the
  texts fetched, or the exception of the first fetch that fails.
\<close>

fun fetch_all ::
  "env \<Rightarrow> params \<Rightarrow> string list \<Rightarrow> state \<Rightarrow> (error + string list) \<times> state" where
  "fetch_all env p [] s = (Inr [], s)"
| "fetch_all env p (flag # flags) s =
     (case fetch_metadata env flag p s of
        (Inl e, s1) \<Rightarrow> (Inl e, s1)
      | (Inr text, s1) \<Rightarrow>
          (case fetch_all env p flags s1 of
             (Inl e, s2) \<Rightarrow> (Inl e, s2)
           | (Inr texts, s2) \<Rightarrow> (Inr (text # texts), s2)))"

section \<open>Platform detection\<close>

lemma length_strip_le: "length (strip s) \<le> length s"
proof -
  have "length (strip s) \<le> length (dropWhile isspace s)"
    unfolding strip_def using length_dropWhile_le [of isspace "rev (dropWhile isspace s)"]
    by simp
  also have "\<dots> \<le> length s" by (rule length_dropWhile_le)
  finally show ?thesis .
qed

lemma str_in_length: "str_in sub s \<Longrightarrow> length sub \<le> length s"
proof (induction s)
  case Nil
  then show ?case by simp
next
  case (Cons c cs)
  from Cons.prems have "prefix sub (c # cs) \<or> str_in sub cs" by simp
  then show ?case
  proof
    assume "prefix sub (c # cs)"
    then show ?thesis by (rule prefix_length_le)
  next
    assume "str_in sub cs"
    then have "length sub \<le> length cs" by (rule Cons.IH)
    then show ?thesis by simp
  qed
qed

text \<open>Whatever \<open>get_kernel_parameters\<close> returns has at most one character.\<close>

lemma get_kernel_parameters_short:
  assumes "get_kernel_parameters h = Inr kp"
  shows "length kp \<le> 1"
proof (cases "proc_cmdline h")
  case None
  with assms show ?thesis by (simp add: get_kernel_parameters_def)
next
  case (Some content)
  show ?thesis
  proof (cases "str_in ''root='' content \<and> 1 < length (re_sub 0 content)")
    case True
    with Some assms have "kp = strip [re_sub 0 content ! 1]"
      by (simp add: get_kernel_parameters_def Let_def)
    then show ?thesis using length_strip_le [of "[re_sub 0 content ! 1]"] by simp
  next
    case False
    with Some assms have "kp = ''''"
      by (auto simp add: get_kernel_parameters_def Let_def split: if_splits)
    then show ?thesis by simp
  qed
qed

text \<open>So the test for the token in the kernel parameters never succeeds.\<close>

lemma kernel_signal_never_fires:
  assumes "get_kernel_parameters h = Inr kp"
  shows "\<not> str_in ''vultr'' kp"
proof
  assume "str_in ''vultr'' kp"
  then have "length ''vultr'' \<le> length kp" by (rule str_in_length)
  moreover have "length kp \<le> 1" using assms by (rule get_kernel_parameters_short)
  ultimately show False by simp
qed

text \<open>
  What \<open>is_vultr\<close> computes: it answers \<open>True\<close> exactly on the manufacturer string, or
  on the marker directory when reading the kernel parameters did not raise.
\<close>

lemma is_vultr_True_iff:
  "is_vultr h = Inr True \<longleftrightarrow>
     dmi_data h ''system-manufacturer'' = Some ''Vultr'' \<or>
     ((\<exists>kp. get_kernel_parameters h = Inr kp) \<and> etc_vultr h = Directory)"
proof (cases "get_kernel_parameters h")
  case (Inl e)
  then show ?thesis by (simp add: is_vultr_def get_sysinfo_def)
next
  case (Inr kp)
  then have "\<not> str_in ''vultr'' kp" by (rule kernel_signal_never_fires)
  with Inr show ?thesis by (simp add: is_vultr_def get_sysinfo_def)
qed

text \<open>
  C3. Detection is claimed to answer true when the \<open>root=\<close> region of the kernel
  command line contains the token \<open>vultr\<close>. On the bare-metal host the region after
  \<open>root=\<close> is \<open>LABEL=vultr ro\<close>, which contains the token, the other two signals are
  absent, and \<open>is_vultr\<close> answers \<open>False\<close>: the token is searched in the single
  character that \<open>[1]\<close> selects.
\<close>

theorem is_vultr_misses_kernel_token:
  "re_sub 0 (''BOOT_IMAGE=/vmlinuz root=LABEL=vultr ro'' @ [CHR 0x0A])
     = ''LABEL=vultr ro'' @ [CHR 0x0A]
   \<and> str_in ''vultr'' (''LABEL=vultr ro'' @ [CHR 0x0A])
   \<and> get_kernel_parameters baremetal_host = Inr ''A''
   \<and> is_vultr baremetal_host = Inr False"
  by (simp add: baremetal_host_def is_vultr_def get_sysinfo_def get_kernel_parameters_def
      match_at_def dot_run_def strip_def isspace_def)

text \<open>
  C4. Detection is claimed never to raise. On the host whose command line ends in
  \<open>root=\<close> the substituted string is a lone newline, \<open>[1]\<close> is out of range, and
  \<open>is_vultr\<close> raises \<open>IndexError\<close>.
\<close>

theorem is_vultr_raises_index_error:
  "re_sub 0 (''console=ttyS0 root='' @ [CHR 0x0A]) = [CHR 0x0A]
   \<and> get_kernel_parameters bare_root_host = Inl IndexError
   \<and> is_vultr bare_root_host = Inl IndexError"
  by (simp add: bare_root_host_def baremetal_host_def is_vultr_def get_sysinfo_def
      get_kernel_parameters_def match_at_def dot_run_def)

section \<open>Network cache store: results\<close>

text \<open>
  C2. Writing the network configuration and reading it back is claimed to return the
  JSON text written, and reading without a cache file to return the empty string.
  Both functions start by evaluating the name \<open>os\<close>, which the module does not bind:
  on every host and for every document each call raises \<open>NameError\<close> and leaves the
  host as it was, so nothing is written and nothing is read.
\<close>

theorem cache_store_raises_name_error:
  "cache_network_config json_dumps config h = (Inl NameError, h)
   \<and> get_cached_network_config h = (Inl NameError, h)"
  by (simp add: cache_network_config_def get_cached_network_config_def load_global_def
      module_globals_def)

section \<open>Sequencing: basic facts\<close>

lemma and_then_lift [simp]:
  "and_then (lift (Inr a)) f = f a"
  "and_then (lift (Inl e)) f s = (Inl e, s)"
  by (rule ext) (simp_all add: and_then_def lift_def)

lemma and_then_cases:
  assumes "and_then m f s = (r, s')"
  shows "(\<exists>e. m s = (Inl e, s') \<and> r = Inl e) \<or> (\<exists>a s1. m s = (Inr a, s1) \<and> f a s1 = (r, s'))"
  using assms by (auto simp add: and_then_def split: prod.splits sum.splits)

section \<open>Metadata fetcher: results\<close>

lemma API_MAP_keys:
  "map fst API_MAP = [''startup-script'', ''hostname'', ''user-data'', ''mdisk-mode'',
     ''root-password'', ''ssh-keys'', ''ipv6-dns1'', ''ipv6-addr'', ''v1.json'']"
  by (simp add: API_MAP_def)

lemma API_MAP_paths_nonempty: "map_of API_MAP flag = Some path \<Longrightarrow> path \<noteq> ''''"
  by (auto simp add: API_MAP_def split: if_splits)

lemma get_url_empty_iff:
  "get_url u flag = '''' \<longleftrightarrow>
     \<not> (flag \<in> set (map fst API_MAP) \<or> str_in ''app-'' flag \<or> str_in ''md-'' flag)"
proof (cases "map_of API_MAP flag")
  case None
  then have "flag \<notin> set (map fst API_MAP)" by (simp add: map_of_eq_None_iff)
  with None show ?thesis by (simp add: get_url_def)
next
  case (Some path)
  then have "path \<noteq> ''''" by (rule API_MAP_paths_nonempty)
  moreover from Some have "flag \<in> set (map fst API_MAP)"
    using map_of_eq_None_iff [of API_MAP flag] by simp
  ultimately show ?thesis using Some by (simp add: get_url_def)
qed

lemma fetch_metadata_frame:
  assumes "fetch_metadata env flag p s = (r, s')"
  shows "METADATA s' = METADATA s \<and> MAC_TO_NICS s' = MAC_TO_NICS s
         \<and> os_queries s' = os_queries s \<and> prefix (requests s) (requests s')"
  using assms
  by (auto simp add: fetch_metadata_def read_metadata_def Let_def
      split: if_splits sum.splits option.splits)

lemma get_metadata_Inl:
  assumes "get_metadata env p s = (Inl e, s')"
  shows "METADATA s = None \<and> METADATA s' = None"
proof (cases "METADATA s")
  case (Some md)
  with assms show ?thesis by (simp add: get_metadata_def)
next
  case None
  with assms show ?thesis
    apply (simp add: get_metadata_def)
    apply (auto dest!: and_then_cases fetch_metadata_frame simp add: lift_def Let_def)
    done
qed

lemma get_url_known:
  assumes "flag \<in> set (map fst API_MAP) \<or> str_in ''app-'' flag \<or> str_in ''md-'' flag"
  shows "fetch_metadata env flag p s = read_metadata env (p\<lparr>url := get_url (url p) flag\<rparr>) s"
  using assms get_url_empty_iff [of "url p" flag] by (simp add: fetch_metadata_def Let_def)

lemma read_metadata_logs:
  "snd (read_metadata env q s) = s\<lparr>requests := requests s @ [q]\<rparr>"
  by (simp add: read_metadata_def Let_def split: sum.splits option.splits)

text \<open>
  C5. A request is claimed to be made exactly for the nine keys of the table and for
  names with the prefix \<open>app-\<close> or \<open>md-\<close>. The code tests \<open>"app-" in flag\<close> and
  \<open>"md-" in flag\<close>, which hold wherever the piece occurs in the name. As amended: a
  request is made, to the base URL followed by the table's path or by
  \<open>/v1/internal/\<close> and the name, exactly when the name is a key of the table or
  contains \<open>app-\<close> or \<open>md-\<close> anywhere; every other name raises \<open>RuntimeError\<close> and
  leaves the state, with its log of requests, as it was.
\<close>

theorem fetch_metadata_request_iff:
  "(flag \<in> set (map fst API_MAP) \<or> str_in ''app-'' flag \<or> str_in ''md-'' flag \<longrightarrow>
      snd (fetch_metadata env flag p s)
        = s\<lparr>requests := requests s @ [p\<lparr>url := get_url (url p) flag\<rparr>]\<rparr>
      \<and> get_url (url p) flag \<noteq> '''')
   \<and> (flag \<notin> set (map fst API_MAP) \<and> (str_in ''app-'' flag \<or> str_in ''md-'' flag) \<longrightarrow>
      get_url (url p) flag = url p @ ''/v1/internal/'' @ flag)
   \<and> (\<not> (flag \<in> set (map fst API_MAP) \<or> str_in ''app-'' flag \<or> str_in ''md-'' flag) \<longrightarrow>
      fetch_metadata env flag p s = (Inl RuntimeError, s))"
proof (intro conjI impI)
  assume known: "flag \<in> set (map fst API_MAP) \<or> str_in ''app-'' flag \<or> str_in ''md-'' flag"
  then show "snd (fetch_metadata env flag p s)
        = s\<lparr>requests := requests s @ [p\<lparr>url := get_url (url p) flag\<rparr>]\<rparr>"
    by (simp add: get_url_known read_metadata_logs)
  from known show "get_url (url p) flag \<noteq> ''''" by (simp add: get_url_empty_iff)
next
  assume "flag \<notin> set (map fst API_MAP) \<and> (str_in ''app-'' flag \<or> str_in ''md-'' flag)"
  then have "map_of API_MAP flag = None" and "str_in ''app-'' flag \<or> str_in ''md-'' flag"
    by (simp_all add: map_of_eq_None_iff)
  then show "get_url (url p) flag = url p @ ''/v1/internal/'' @ flag"
    by (simp add: get_url_def)
next
  assume "\<not> (flag \<in> set (map fst API_MAP) \<or> str_in ''app-'' flag \<or> str_in ''md-'' flag)"
  then have "get_url (url p) flag = ''''" by (simp add: get_url_empty_iff)
  then show "fetch_metadata env flag p s = (Inl RuntimeError, s)"
    by (simp add: fetch_metadata_def Let_def)
qed

theorem fetch_metadata_request_iff_witness:
  "snd (fetch_metadata (service '''' [] []) ''md-role'' request_params fresh_state)
     = fresh_state\<lparr>requests := [request_params\<lparr>url := ''http://169.254.169.254/v1/internal/md-role''\<rparr>]\<rparr>
   \<and> fetch_metadata (service '''' [] []) ''region'' request_params fresh_state
     = (Inl RuntimeError, fresh_state)"
proof -
  have a: "\<not> (''region'' \<in> set (map fst API_MAP) \<or> str_in ''app-'' ''region'' \<or> str_in ''md-'' ''region'')"
    by (simp add: API_MAP_def)
  have b: "''md-role'' \<notin> set (map fst API_MAP) \<and> (str_in ''app-'' ''md-role'' \<or> str_in ''md-'' ''md-role'')"
    by (simp add: API_MAP_def)
  from fetch_metadata_request_iff [of "''md-role''" "service '''' [] []" request_params fresh_state] b
    fetch_metadata_request_iff [of "''region''" "service '''' [] []" request_params fresh_state] a
  show ?thesis by (simp add: request_params_def fresh_state_def)
qed

text \<open>
  The name \<open>cmd-line\<close> is not a key of the table and starts with neither prefix, and
  \<open>fetch_metadata\<close> sends a request for it.
\<close>

theorem fetch_metadata_substring_counterexample:
  "''cmd-line'' \<notin> set (map fst API_MAP)
   \<and> \<not> prefix ''app-'' ''cmd-line'' \<and> \<not> prefix ''md-'' ''cmd-line''
   \<and> fetch_metadata (service '''' [] []) ''cmd-line'' request_params fresh_state
     = (Inr '''', fresh_state\<lparr>requests := [request_params\<lparr>url := ''http://169.254.169.254/v1/internal/cmd-line''\<rparr>]\<rparr>)"
  by (simp add: API_MAP_def fetch_metadata_def get_url_def read_metadata_def service_def
      service_body_def request_params_def fresh_state_def)

lemma get_metadata_cached: "METADATA s = Some md \<Longrightarrow> get_metadata env p s = (Inr md, s)"
  by (simp add: get_metadata_def)

lemma get_metadata_Inr:
  assumes "get_metadata env p s = (Inr md, s')"
  shows "METADATA s' = Some md"
proof (cases "METADATA s")
  case (Some md0)
  with assms show ?thesis by (auto simp add: get_metadata_def)
next
  case None
  with assms show ?thesis
    apply (simp add: get_metadata_def)
    apply (auto dest!: and_then_cases simp add: lift_def Let_def)
    done
qed

lemma fetch_metadata_Inr:
  assumes "fetch_metadata env flag p s = (Inr a, s')"
  shows "s' = s\<lparr>requests := requests s @ [p\<lparr>url := get_url (url p) flag\<rparr>]\<rparr>"
  using assms read_metadata_logs [of env "p\<lparr>url := get_url (url p) flag\<rparr>" s]
  by (auto simp add: fetch_metadata_def Let_def split: if_splits)

lemma get_metadata_fetches_all:
  assumes "get_metadata env p s = (Inr md, s')" and "METADATA s = None"
  shows "requests s' = requests s @ map (\<lambda>path. p\<lparr>url := url p @ path\<rparr>) (map snd API_MAP)"
  using assms
  apply (simp add: get_metadata_def)
  apply (auto dest!: and_then_cases fetch_metadata_Inr simp add: lift_def Let_def)
  apply (simp add: get_url_def API_MAP_def)
  done

lemma get_metadata_first_request:
  assumes "METADATA s = None"
  shows "prefix (requests s @ [p\<lparr>url := url p @ ''/latest/startup-script''\<rparr>])
           (requests (snd (get_metadata env p s)))"
proof -
  let ?q = "p\<lparr>url := url p @ ''/latest/startup-script''\<rparr>"
  obtain r s1 where first: "fetch_metadata env ''startup-script'' p s = (r, s1)"
    by (cases "fetch_metadata env ''startup-script'' p s") auto
  have url: "get_url (url p) ''startup-script'' = url p @ ''/latest/startup-script''"
    by (simp add: get_url_def API_MAP_def)
  have s1: "s1 = s\<lparr>requests := requests s @ [?q]\<rparr>"
    using first read_metadata_logs [of env ?q s] url
    by (auto simp add: fetch_metadata_def Let_def)
  obtain r2 s2 where whole: "get_metadata env p s = (r2, s2)"
    by (cases "get_metadata env p s") auto
  have "prefix (requests s1) (requests s2)"
  proof (cases r)
    case (Inl e)
    with first whole assms have "s2 = s1" by (simp add: get_metadata_def and_then_def)
    then show ?thesis by simp
  next
    case (Inr a1)
    with first whole assms show ?thesis
      apply (simp add: get_metadata_def)
      apply (subst (asm) and_then_def)
      apply simp
      apply (auto dest!: and_then_cases fetch_metadata_frame simp add: lift_def Let_def)
      done
  qed
  with s1 whole show ?thesis by simp
qed

text \<open>
  From an empty cache \<open>get_metadata\<close> is the sequence of the nine fetches, the parsing
  of the last text and the assignment of the complete bundle.
\<close>

lemma get_metadata_fetch_all:
  assumes "METADATA s = None"
  shows "get_metadata env p s =
     (case fetch_all env p (map fst API_MAP) s of
        (Inl e, s1) \<Rightarrow> (Inl e, s1)
      | (Inr texts, s1) \<Rightarrow>
          (case json_loads env (texts ! 8) of
             Inl e \<Rightarrow> (Inl e, s1)
           | Inr doc \<Rightarrow>
               (let md = \<lparr> startup_script = texts ! 0, hostname = texts ! 1,
                            user_data = texts ! 2, mdisk_mode = texts ! 3,
                            root_password = texts ! 4, ssh_keys = texts ! 5,
                            ipv6_dns1 = texts ! 6, ipv6_addr = texts ! 7, v1 = doc \<rparr>
                in (Inr md, s1\<lparr>METADATA := Some md\<rparr>))))"
  using assms
  by (simp add: get_metadata_def API_MAP_def and_then_def lift_def Let_def
      split: prod.splits sum.splits)

text \<open>
  C6. \<open>get_metadata\<close> is memoized atomically. With a bundle in the cache every call
  returns it and leaves the state untouched, so nothing is fetched. A call that
  returns a bundle has stored that very bundle, any later call returns it again
  without a request, and when it started from an empty cache it made the nine
  requests of the table in order. A call that raises started from an empty cache and
  leaves it empty, and the next call begins a new cycle with the request for the
  startup script. From an empty cache the call does raise when one of the nine
  fetches, made in order, fails, and when the text of \<open>v1.json\<close> does not parse.
\<close>

theorem get_metadata_memoized:
  "(METADATA s = Some md \<longrightarrow> get_metadata env p s = (Inr md, s))
   \<and> (get_metadata env p s = (Inr md, s') \<longrightarrow>
        METADATA s' = Some md \<and> get_metadata env2 p2 s' = (Inr md, s')
        \<and> (METADATA s = None \<longrightarrow>
             requests s' = requests s @ map (\<lambda>path. p\<lparr>url := url p @ path\<rparr>) (map snd API_MAP)))
   \<and> (get_metadata env p s = (Inl e, s') \<longrightarrow>
        METADATA s = None \<and> METADATA s' = None
        \<and> prefix (requests s' @ [p2\<lparr>url := url p2 @ ''/latest/startup-script''\<rparr>])
             (requests (snd (get_metadata env2 p2 s'))))
   \<and> (METADATA s = None \<and> fetch_all env p (map fst API_MAP) s = (Inl e, s') \<longrightarrow>
        get_metadata env p s = (Inl e, s'))
   \<and> (METADATA s = None \<and> fetch_all env p (map fst API_MAP) s = (Inr texts, s')
        \<and> json_loads env (texts ! 8) = Inl e \<longrightarrow>
        get_metadata env p s = (Inl e, s'))"
proof (intro conjI impI)
  assume "METADATA s = Some md"
  then show "get_metadata env p s = (Inr md, s)" by (rule get_metadata_cached)
next
  assume ok: "get_metadata env p s = (Inr md, s')"
  then show cached: "METADATA s' = Some md" by (rule get_metadata_Inr)
  then show "get_metadata env2 p2 s' = (Inr md, s')" by (rule get_metadata_cached)
  assume "METADATA s = None"
  with ok show "requests s' = requests s @ map (\<lambda>path. p\<lparr>url := url p @ path\<rparr>) (map snd API_MAP)"
    by (rule get_metadata_fetches_all)
next
  assume failed: "get_metadata env p s = (Inl e, s')"
  then show "METADATA s = None" by (simp add: get_metadata_Inl)
  from failed show none: "METADATA s' = None" by (simp add: get_metadata_Inl)
  then show "prefix (requests s' @ [p2\<lparr>url := url p2 @ ''/latest/startup-script''\<rparr>])
             (requests (snd (get_metadata env2 p2 s')))"
    by (rule get_metadata_first_request)
next
  assume "METADATA s = None \<and> fetch_all env p (map fst API_MAP) s = (Inl e, s')"
  then show "get_metadata env p s = (Inl e, s')" by (simp add: get_metadata_fetch_all)
next
  assume "METADATA s = None \<and> fetch_all env p (map fst API_MAP) s = (Inr texts, s')
        \<and> json_loads env (texts ! 8) = Inl e"
  then show "get_metadata env p s = (Inl e, s')" by (simp add: get_metadata_fetch_all)
qed

lemmas service_eval =
  get_metadata_def fetch_metadata_def read_metadata_def get_url_def API_MAP_def
  service_def service_body_def request_params_def fresh_state_def and_then_def lift_def Let_def

lemma service_get_metadata:
  "fst (get_metadata (service script [] nics) request_params fresh_state) = Inr (test_bundle script)"
  by (simp add: service_eval test_bundle_def)

lemma service_get_metadata_failure:
  "fst (get_metadata (service script [''http://169.254.169.254/v1/internal/root-password''] nics)
     request_params fresh_state) = Inl TypeError"
  by (simp add: service_eval)

theorem get_metadata_memoized_witness:
  "fst (get_metadata (service '''' [''http://169.254.169.254/v1/internal/root-password''] [])
          request_params fresh_state) = Inl TypeError
   \<and> METADATA (snd (get_metadata
          (service '''' [''http://169.254.169.254/v1/internal/root-password''] [])
          request_params fresh_state)) = None
   \<and> fst (get_metadata ((service '''' [] [])\<lparr>json_loads := (\<lambda>text. Inl JSONDecodeError)\<rparr>)
          request_params fresh_state) = Inl JSONDecodeError
   \<and> fst (get_metadata (service '''' [] []) request_params fresh_state) = Inr (test_bundle '''')
   \<and> METADATA (snd (get_metadata (service '''' [] []) request_params fresh_state))
       = Some (test_bundle '''')
   \<and> length (requests (snd (get_metadata (service '''' [] []) request_params fresh_state))) = 9
   \<and> get_metadata (service '''' [''http://169.254.169.254/v1.json''] []) request_params
        (snd (get_metadata (service '''' [] []) request_params fresh_state))
       = (Inr (test_bundle ''''), snd (get_metadata (service '''' [] []) request_params fresh_state))"
proof -
  let ?bad = "service '''' [''http://169.254.169.254/v1/internal/root-password''] []"
  let ?good = "service '''' [] []"
  let ?down = "service '''' [''http://169.254.169.254/v1.json''] []"
  let ?noparse = "(service '''' [] [])\<lparr>json_loads := (\<lambda>text. Inl JSONDecodeError)\<rparr>"
  let ?texts = "['''', '''', '''', '''', ''hunter2'', '''', '''', '''', ''<instance document>'']"
  define s1 where "s1 = snd (fetch_all ?bad request_params (map fst API_MAP) fresh_state)"
  define s2 where "s2 = snd (get_metadata ?good request_params fresh_state)"
  define s3 where "s3 = snd (fetch_all ?noparse request_params (map fst API_MAP) fresh_state)"
  have empty: "METADATA fresh_state = None" "requests fresh_state = []"
    by (simp_all add: fresh_state_def)
  have "fst (fetch_all ?bad request_params (map fst API_MAP) fresh_state) = Inl TypeError"
    by (simp add: service_eval)
  then have "fetch_all ?bad request_params (map fst API_MAP) fresh_state = (Inl TypeError, s1)"
    unfolding s1_def by (metis prod.collapse)
  with empty(1) have failed: "get_metadata ?bad request_params fresh_state = (Inl TypeError, s1)"
    using get_metadata_memoized [of fresh_state "test_bundle ''''" ?bad request_params s1
        ?good request_params TypeError ?texts]
    by blast
  have "fst (fetch_all ?noparse request_params (map fst API_MAP) fresh_state) = Inr ?texts"
    by (simp add: service_eval)
  then have "fetch_all ?noparse request_params (map fst API_MAP) fresh_state = (Inr ?texts, s3)"
    unfolding s3_def by (metis prod.collapse)
  moreover have "json_loads ?noparse (?texts ! 8) = Inl JSONDecodeError"
    by (simp add: service_def)
  ultimately have noparse: "get_metadata ?noparse request_params fresh_state
      = (Inl JSONDecodeError, s3)"
    using get_metadata_memoized [of fresh_state "test_bundle ''''" ?noparse request_params s3
        ?good request_params JSONDecodeError ?texts] empty(1)
    by blast
  have r2: "fst (get_metadata ?good request_params fresh_state) = Inr (test_bundle '''')"
    by (rule service_get_metadata)
  then have ok: "get_metadata ?good request_params fresh_state = (Inr (test_bundle ''''), s2)"
    unfolding s2_def by (metis prod.collapse)
  have a: "METADATA s1 = None"
    using get_metadata_memoized [of fresh_state "test_bundle ''''" ?bad request_params s1
        ?good request_params TypeError ?texts] failed
    by blast
  have b: "METADATA s2 = Some (test_bundle '''')
      \<and> get_metadata ?down request_params s2 = (Inr (test_bundle ''''), s2)
      \<and> requests s2 = requests fresh_state @
           map (\<lambda>path. request_params\<lparr>url := url request_params @ path\<rparr>) (map snd API_MAP)"
    using get_metadata_memoized [of fresh_state "test_bundle ''''" ?good request_params s2
        ?down request_params TypeError ?texts] ok empty(1)
    by blast
  then have c: "length (requests s2) = 9" by (simp add: empty(2) API_MAP_def)
  from b have d: "get_metadata ?down request_params s2 = (Inr (test_bundle ''''), s2)"
    using get_metadata_memoized [of s2 "test_bundle ''''" ?down request_params s2
        ?down request_params TypeError ?texts]
    by blast
  from failed noparse a have
    "fst (get_metadata ?bad request_params fresh_state) = Inl TypeError
     \<and> METADATA (snd (get_metadata ?bad request_params fresh_state)) = None
     \<and> fst (get_metadata ?noparse request_params fresh_state) = Inl JSONDecodeError"
    by simp
  with r2 b c d show ?thesis unfolding s2_def by blast
qed

section \<open>Interface resolver: results\<close>

lemma get_interface_name_cached:
  assumes "MAC_TO_NICS s = Some (x # xs)"
  shows "get_interface_name env mac s = (mac_lookup (x # xs) mac, s)"
  using assms by (simp add: get_interface_name_def)

lemma get_interface_name_query:
  assumes "MAC_TO_NICS s = None \<or> MAC_TO_NICS s = Some []"
  shows "get_interface_name env mac s =
     (case get_interfaces_by_mac env (os_queries s) of
        Inl e \<Rightarrow> (Inl e, s\<lparr>os_queries := Suc (os_queries s)\<rparr>)
      | Inr nics \<Rightarrow> (mac_lookup nics mac,
                     s\<lparr>os_queries := Suc (os_queries s), MAC_TO_NICS := Some nics\<rparr>))"
  using assms by (auto simp add: get_interface_name_def Let_def split: sum.splits)

text \<open>
  C9. Two calls in succession with the same MAC are claimed to return the same
  result with at most one query of the operating system, from every state of the
  cache. The guard \<open>not MAC_TO_NICS\<close> (commented "Define it if empty") also holds for an
  empty mapping. As amended: when the cache holds a non-empty mapping, neither call
  queries the operating system and both return the same result; when the cache is
  unset or empty and the query of the first call answers a non-empty mapping, that
  mapping is stored, the first call makes the only query and both calls return the
  same result; and when the cache is unset or empty and the query answers an empty
  mapping or raises, each of the two calls queries the operating system.
\<close>

theorem get_interface_name_memoized:
  assumes first: "get_interface_name env mac s = (r1, s1)"
    and second: "get_interface_name env mac s1 = (r2, s2)"
  shows "(MAC_TO_NICS s = Some (x # xs) \<longrightarrow> r2 = r1 \<and> s1 = s \<and> s2 = s)
       \<and> ((MAC_TO_NICS s = None \<or> MAC_TO_NICS s = Some [])
            \<and> get_interfaces_by_mac env (os_queries s) = Inr (x # xs) \<longrightarrow>
            r2 = r1 \<and> MAC_TO_NICS s1 = Some (x # xs)
            \<and> os_queries s1 = os_queries s + 1 \<and> s2 = s1)
       \<and> ((MAC_TO_NICS s = None \<or> MAC_TO_NICS s = Some [])
            \<and> (get_interfaces_by_mac env (os_queries s) = Inr []
                \<or> get_interfaces_by_mac env (os_queries s) = Inl e) \<longrightarrow>
            os_queries s1 = os_queries s + 1 \<and> os_queries s2 = os_queries s + 2)"
proof (intro conjI impI)
  assume cached: "MAC_TO_NICS s = Some (x # xs)"
  with first have "r1 = mac_lookup (x # xs) mac" and s1: "s1 = s"
    by (simp_all add: get_interface_name_cached)
  moreover from second cached s1 have "r2 = mac_lookup (x # xs) mac" and "s2 = s"
    by (simp_all add: get_interface_name_cached)
  ultimately show "r2 = r1" and "s1 = s" and "s2 = s" by simp_all
next
  assume h: "(MAC_TO_NICS s = None \<or> MAC_TO_NICS s = Some [])
            \<and> get_interfaces_by_mac env (os_queries s) = Inr (x # xs)"
  with first have r1: "r1 = mac_lookup (x # xs) mac"
    and s1: "s1 = s\<lparr>os_queries := Suc (os_queries s), MAC_TO_NICS := Some (x # xs)\<rparr>"
    by (simp_all add: get_interface_name_query)
  from s1 show cache: "MAC_TO_NICS s1 = Some (x # xs)" by simp
  from s1 show "os_queries s1 = os_queries s + 1" by simp
  from second cache have "r2 = mac_lookup (x # xs) mac" and "s2 = s1"
    by (simp_all add: get_interface_name_cached)
  with r1 show "r2 = r1" and "s2 = s1" by simp_all
next
  assume h: "(MAC_TO_NICS s = None \<or> MAC_TO_NICS s = Some [])
            \<and> (get_interfaces_by_mac env (os_queries s) = Inr []
                \<or> get_interfaces_by_mac env (os_queries s) = Inl e)"
  with first have s1: "os_queries s1 = os_queries s + 1
      \<and> (MAC_TO_NICS s1 = None \<or> MAC_TO_NICS s1 = Some [])"
    by (auto simp add: get_interface_name_query)
  then show "os_queries s1 = os_queries s + 1" by simp
  from s1 second have "os_queries s2 = os_queries s1 + 1"
    by (auto simp add: get_interface_name_query split: sum.splits)
  with s1 show "os_queries s2 = os_queries s + 2" by simp
qed

theorem get_interface_name_memoized_witness:
  "get_interface_name (service '''' [] INTERFACE_MAP) (PStr ''5a:00:03:1b:4e:ca'') fresh_state
     = (Inr (Some ''eth1''), fresh_state\<lparr>os_queries := 1, MAC_TO_NICS := Some INTERFACE_MAP\<rparr>)
   \<and> get_interface_name (service '''' [] INTERFACE_MAP) (PStr ''5a:00:03:1b:4e:ca'')
       (fresh_state\<lparr>os_queries := 1, MAC_TO_NICS := Some INTERFACE_MAP\<rparr>)
     = (Inr (Some ''eth1''), fresh_state\<lparr>os_queries := 1, MAC_TO_NICS := Some INTERFACE_MAP\<rparr>)
   \<and> get_interface_name (service '''' [] []) (PStr ''5a:00:03:1b:4e:ca'') fresh_state
     = (Inr None, fresh_state\<lparr>os_queries := 1, MAC_TO_NICS := Some []\<rparr>)
   \<and> get_interface_name (service '''' [] []) (PStr ''5a:00:03:1b:4e:ca'')
       (fresh_state\<lparr>os_queries := 1, MAC_TO_NICS := Some []\<rparr>)
     = (Inr None, fresh_state\<lparr>os_queries := 2, MAC_TO_NICS := Some []\<rparr>)"
proof -
  let ?env = "service '''' [] INTERFACE_MAP"
  let ?none = "service '''' [] []"
  let ?mac = "PStr ''5a:00:03:1b:4e:ca''"
  let ?s1 = "fresh_state\<lparr>os_queries := 1, MAC_TO_NICS := Some INTERFACE_MAP\<rparr>"
  let ?t1 = "fresh_state\<lparr>os_queries := 1, MAC_TO_NICS := Some []\<rparr>"
  let ?t2 = "fresh_state\<lparr>os_queries := 2, MAC_TO_NICS := Some []\<rparr>"
  let ?x = "(''56:00:03:15:c4:65'', ''eth0'')"
  let ?xs = "[(''56:00:03:1b:4e:ca'', ''eth0''), (''5a:00:03:1b:4e:ca'', ''eth1'')]"
  have first: "get_interface_name ?env ?mac fresh_state = (Inr (Some ''eth1''), ?s1)"
    by (simp add: get_interface_name_def service_def fresh_state_def INTERFACE_MAP_def
        mac_lookup_def)
  have second: "get_interface_name ?env ?mac ?s1 = (Inr (Some ''eth1''), ?s1)"
    by (simp add: get_interface_name_def service_def fresh_state_def INTERFACE_MAP_def
        mac_lookup_def)
  have none1: "get_interface_name ?none ?mac fresh_state = (Inr None, ?t1)"
    by (simp add: get_interface_name_def service_def fresh_state_def mac_lookup_def)
  have none2: "get_interface_name ?none ?mac ?t1 = (Inr None, ?t2)"
    by (simp add: get_interface_name_def service_def fresh_state_def mac_lookup_def)
  have unset: "(MAC_TO_NICS fresh_state = None \<or> MAC_TO_NICS fresh_state = Some [])
      \<and> get_interfaces_by_mac ?env (os_queries fresh_state) = Inr (?x # ?xs)"
    by (simp add: service_def fresh_state_def INTERFACE_MAP_def)
  have cached: "MAC_TO_NICS ?s1 = Some (?x # ?xs)"
    by (simp add: INTERFACE_MAP_def)
  have empty: "(MAC_TO_NICS fresh_state = None \<or> MAC_TO_NICS fresh_state = Some [])
      \<and> (get_interfaces_by_mac ?none (os_queries fresh_state) = Inr []
          \<or> get_interfaces_by_mac ?none (os_queries fresh_state) = Inl RuntimeError)"
    by (simp add: service_def fresh_state_def)
  from get_interface_name_memoized [OF first second, of ?x ?xs RuntimeError] unset
  have a: "Inr (Some ''eth1'') = (Inr (Some ''eth1'') :: error + string option)
      \<and> os_queries ?s1 = os_queries fresh_state + 1"
    by blast
  from get_interface_name_memoized [OF second second, of ?x ?xs RuntimeError] cached
  have b: "?s1 = ?s1" by blast
  from get_interface_name_memoized [OF none1 none2, of ?x ?xs RuntimeError] empty
  have c: "os_queries ?t2 = os_queries fresh_state + 2" by blast
  from a b c first second none1 none2 show ?thesis by blast
qed

text \<open>
  On a machine that reports no interface, two calls in succession make two queries.
\<close>

theorem get_interface_name_requeries_counterexample:
  "os_queries fresh_state = 0
   \<and> os_queries (snd (get_interface_name (service '''' [] []) (PStr ''56:00:03:15:c4:65'')
        (snd (get_interface_name (service '''' [] []) (PStr ''56:00:03:15:c4:65'')
           fresh_state)))) = 2"
  by (simp add: get_interface_name_def service_def fresh_state_def mac_lookup_def)

section \<open>Network synthesizer: results\<close>

lemma primary_interface_Inr:
  assumes "primary_interface env interface s = (Inr netcfg, s')"
  shows "\<exists>name mac ipv4 address gateway netmask.
           netcfg = primary_netcfg name mac address gateway netmask
           \<and> py_getitem interface ''mac'' = Inr mac
           \<and> get_interface_name env mac s = (Inr (Some name), s')
           \<and> name \<noteq> ''''
           \<and> py_getitem interface ''ipv4'' = Inr ipv4
           \<and> py_getitem ipv4 ''address'' = Inr address
           \<and> py_getitem ipv4 ''gateway'' = Inr gateway
           \<and> py_getitem ipv4 ''netmask'' = Inr netmask"
  using assms unfolding primary_interface_def
  by (auto dest!: and_then_cases simp add: lift_def split: option.splits if_splits)

lemma secondary_interface_Inr:
  assumes "secondary_interface env interface s = (Inr netcfg, s')"
  shows "\<exists>name mac ipv4 address netmask.
           netcfg = secondary_netcfg name mac address netmask
           \<and> py_getitem interface ''mac'' = Inr mac
           \<and> get_interface_name env mac s = (Inr (Some name), s')
           \<and> name \<noteq> ''''
           \<and> py_getitem interface ''ipv4'' = Inr ipv4
           \<and> py_getitem ipv4 ''address'' = Inr address
           \<and> py_getitem ipv4 ''netmask'' = Inr netmask"
  using assms unfolding secondary_interface_def
  by (auto dest!: and_then_cases simp add: lift_def split: option.splits if_splits)

text \<open>The synthesizer after the bundle and its interface list have been read.\<close>

lemma generate_network_config_unfold:
  assumes md: "get_metadata env config s = (Inr md, s1)"
    and ifs: "py_getitem (v1 md) ''interfaces'' = Inr (PList ifs)"
  shows "generate_network_config env config s =
     and_then
       (if ifs \<noteq> [] then
          and_then (primary_interface env (ifs ! 0)) (\<lambda>netcfg. lift (Inr [netcfg]))
        else lift (Inr [])) (\<lambda>first.
     and_then
       (if 1 < length ifs then
          and_then (secondary_interface env (ifs ! 1)) (\<lambda>netcfg. lift (Inr [netcfg]))
        else lift (Inr [])) (\<lambda>second.
       lift (Inr (network_doc (nameserver_block # first @ second))))) s1"
proof -
  have "generate_network_config env config s =
     and_then (lift (py_getitem (v1 md) ''interfaces'')) (\<lambda>interfaces.
     and_then (lift (py_len interfaces)) (\<lambda>n.
     and_then
       (if 0 < n then
          and_then (lift (py_index interfaces 0)) (\<lambda>interface.
          and_then (primary_interface env interface) (\<lambda>netcfg. lift (Inr [netcfg])))
        else lift (Inr [])) (\<lambda>first.
     and_then
       (if 1 < n then
          and_then (lift (py_index interfaces 1)) (\<lambda>interface.
          and_then (secondary_interface env interface) (\<lambda>netcfg. lift (Inr [netcfg])))
        else lift (Inr [])) (\<lambda>second.
       lift (Inr (network_doc (nameserver_block # first @ second))))))) s1"
    unfolding generate_network_config_def by (subst and_then_def) (simp add: md)
  also have "\<dots> = and_then
       (if ifs \<noteq> [] then
          and_then (primary_interface env (ifs ! 0)) (\<lambda>netcfg. lift (Inr [netcfg]))
        else lift (Inr [])) (\<lambda>first.
     and_then
       (if 1 < length ifs then
          and_then (secondary_interface env (ifs ! 1)) (\<lambda>netcfg. lift (Inr [netcfg]))
        else lift (Inr [])) (\<lambda>second.
       lift (Inr (network_doc (nameserver_block # first @ second))))) s1"
    by (cases ifs) (simp_all add: ifs py_len_def py_index_def)
  finally show ?thesis .
qed

lemma generate_network_config_Inr:
  assumes md: "get_metadata env config s = (Inr md, s1)"
    and ifs: "py_getitem (v1 md) ''interfaces'' = Inr (PList ifs)"
    and ok: "generate_network_config env config s = (Inr net, s')"
  shows "(ifs = [] \<longrightarrow> net = network_doc [nameserver_block])
     \<and> (ifs \<noteq> [] \<longrightarrow>
          (\<exists>name mac ipv4 address gateway netmask blocks.
             net = network_doc (nameserver_block #
                     primary_netcfg name mac address gateway netmask # blocks)
             \<and> py_getitem (ifs ! 0) ''mac'' = Inr mac
             \<and> py_getitem (ifs ! 0) ''ipv4'' = Inr ipv4
             \<and> py_getitem ipv4 ''address'' = Inr address
             \<and> py_getitem ipv4 ''gateway'' = Inr gateway
             \<and> py_getitem ipv4 ''netmask'' = Inr netmask
             \<and> (length ifs = 1 \<longrightarrow> blocks = [])
             \<and> (1 < length ifs \<longrightarrow>
                  (\<exists>name mac ipv4 address netmask.
                     blocks = [secondary_netcfg name mac address netmask]
                     \<and> py_getitem (ifs ! 1) ''mac'' = Inr mac
                     \<and> py_getitem (ifs ! 1) ''ipv4'' = Inr ipv4
                     \<and> py_getitem ipv4 ''address'' = Inr address
                     \<and> py_getitem ipv4 ''netmask'' = Inr netmask))))"
proof -
  from ok have "and_then
       (if ifs \<noteq> [] then
          and_then (primary_interface env (ifs ! 0)) (\<lambda>netcfg. lift (Inr [netcfg]))
        else lift (Inr [])) (\<lambda>first.
     and_then
       (if 1 < length ifs then
          and_then (secondary_interface env (ifs ! 1)) (\<lambda>netcfg. lift (Inr [netcfg]))
        else lift (Inr [])) (\<lambda>second.
       lift (Inr (network_doc (nameserver_block # first @ second))))) s1 = (Inr net, s')"
    by (simp add: generate_network_config_unfold [OF md ifs])
  then show ?thesis
    apply (cases ifs)
     apply (auto dest!: and_then_cases primary_interface_Inr secondary_interface_Inr
        simp add: lift_def split: if_splits)
    apply blast
    done
qed

lemma and_then_Inr: "m s = (Inr a, s1) \<Longrightarrow> and_then m f s = f a s1"
  by (simp add: and_then_def)

lemma resolves_get_interface_name:
  assumes "resolves (nics_in_use env s) interface"
  shows "\<exists>mac name s'. py_getitem interface ''mac'' = Inr mac
           \<and> get_interface_name env mac s = (Inr (Some name), s')
           \<and> name \<noteq> ''''
           \<and> nics_in_use env s' = nics_in_use env s"
proof -
  from assms obtain m name where mac: "py_getitem interface ''mac'' = Inr (PStr m)"
    and name: "map_of (nics_in_use env s) m = Some name" "name \<noteq> ''''"
    by (auto simp add: resolves_def split: sum.splits pyval.splits option.splits)
  from name obtain x xs where nics: "nics_in_use env s = x # xs"
    by (cases "nics_in_use env s") auto
  show ?thesis
  proof (cases "MAC_TO_NICS s = None \<or> MAC_TO_NICS s = Some []")
    case True
    with nics have os: "get_interfaces_by_mac env (os_queries s) = Inr (x # xs)"
      by (auto simp add: nics_in_use_def split: sum.splits)
    with True have "get_interface_name env (PStr m) s =
        (mac_lookup (x # xs) (PStr m),
         s\<lparr>os_queries := Suc (os_queries s), MAC_TO_NICS := Some (x # xs)\<rparr>)"
      by (simp add: get_interface_name_query)
    moreover have "mac_lookup (x # xs) (PStr m) = Inr (Some name)"
      using name nics by (simp add: mac_lookup_def)
    moreover have "nics_in_use env
        (s\<lparr>os_queries := Suc (os_queries s), MAC_TO_NICS := Some (x # xs)\<rparr>) = x # xs"
      by (simp add: nics_in_use_def)
    ultimately show ?thesis using mac name nics by auto
  next
    case False
    with nics have cache: "MAC_TO_NICS s = Some (x # xs)"
      by (auto simp add: nics_in_use_def split: option.splits)
    then have "get_interface_name env (PStr m) s = (mac_lookup (x # xs) (PStr m), s)"
      by (rule get_interface_name_cached)
    moreover have "mac_lookup (x # xs) (PStr m) = Inr (Some name)"
      using name nics by (simp add: mac_lookup_def)
    ultimately show ?thesis using mac name by auto
  qed
qed

lemma has_ipv4_getitem:
  assumes "has_ipv4 keys interface" and "key \<in> set keys"
  shows "\<exists>ipv4 v. py_getitem interface ''ipv4'' = Inr ipv4 \<and> py_getitem ipv4 key = Inr v"
  using assms
  by (auto simp add: has_ipv4_def py_getitem_def list_all_iff
      split: sum.splits pyval.splits option.splits)

lemma primary_interface_total:
  assumes r: "resolves (nics_in_use env s) interface"
    and w: "has_ipv4 [''address'', ''gateway'', ''netmask''] interface"
  shows "\<exists>netcfg s'. primary_interface env interface s = (Inr netcfg, s')
           \<and> nics_in_use env s' = nics_in_use env s"
proof -
  from resolves_get_interface_name [OF r] obtain mac name s' where
    "py_getitem interface ''mac'' = Inr mac"
    "get_interface_name env mac s = (Inr (Some name), s')" "name \<noteq> ''''"
    "nics_in_use env s' = nics_in_use env s"
    by blast
  moreover from has_ipv4_getitem [OF w, of "''address''"]
    has_ipv4_getitem [OF w, of "''gateway''"] has_ipv4_getitem [OF w, of "''netmask''"]
  obtain ipv4 a g m where "py_getitem interface ''ipv4'' = Inr ipv4"
    "py_getitem ipv4 ''address'' = Inr a" "py_getitem ipv4 ''gateway'' = Inr g"
    "py_getitem ipv4 ''netmask'' = Inr m"
    by auto
  ultimately show ?thesis
    by (simp add: primary_interface_def and_then_def lift_def)
qed

lemma secondary_interface_total:
  assumes r: "resolves (nics_in_use env s) interface"
    and w: "has_ipv4 [''address'', ''netmask''] interface"
  shows "\<exists>netcfg s'. secondary_interface env interface s = (Inr netcfg, s')
           \<and> nics_in_use env s' = nics_in_use env s"
proof -
  from resolves_get_interface_name [OF r] obtain mac name s' where
    "py_getitem interface ''mac'' = Inr mac"
    "get_interface_name env mac s = (Inr (Some name), s')" "name \<noteq> ''''"
    "nics_in_use env s' = nics_in_use env s"
    by blast
  moreover from has_ipv4_getitem [OF w, of "''address''"] has_ipv4_getitem [OF w, of "''netmask''"]
  obtain ipv4 a m where "py_getitem interface ''ipv4'' = Inr ipv4"
    "py_getitem ipv4 ''address'' = Inr a" "py_getitem ipv4 ''netmask'' = Inr m"
    by auto
  ultimately show ?thesis
    by (simp add: secondary_interface_def and_then_def lift_def)
qed

lemma generate_network_config_total:
  assumes md: "get_metadata env config s = (Inr md, s1)"
    and ifs: "py_getitem (v1 md) ''interfaces'' = Inr (PList ifs)"
    and first: "ifs \<noteq> [] \<longrightarrow> resolves (nics_in_use env s1) (ifs ! 0)
                  \<and> has_ipv4 [''address'', ''gateway'', ''netmask''] (ifs ! 0)"
    and second: "1 < length ifs \<longrightarrow> resolves (nics_in_use env s1) (ifs ! 1)
                  \<and> has_ipv4 [''address'', ''netmask''] (ifs ! 1)"
  shows "\<exists>net s'. generate_network_config env config s = (Inr net, s')"
proof -
  let ?A = "if ifs \<noteq> [] then
          and_then (primary_interface env (ifs ! 0)) (\<lambda>netcfg. lift (Inr [netcfg]))
        else lift (Inr [])"
  let ?B = "if 1 < length ifs then
          and_then (secondary_interface env (ifs ! 1)) (\<lambda>netcfg. lift (Inr [netcfg]))
        else lift (Inr [])"
  have a: "\<exists>blocks s2. ?A s1 = (Inr blocks, s2) \<and> nics_in_use env s2 = nics_in_use env s1"
  proof (cases "ifs = []")
    case True
    then show ?thesis by (simp add: lift_def)
  next
    case False
    with first primary_interface_total [of env s1 "ifs ! 0"] show ?thesis
      by (auto simp add: and_then_def lift_def)
  qed
  then obtain blocks s2 where a1: "?A s1 = (Inr blocks, s2)"
    and a2: "nics_in_use env s2 = nics_in_use env s1"
    by blast
  have b: "\<exists>more s3. ?B s2 = (Inr more, s3)"
  proof (cases "1 < length ifs")
    case True
    with second a2 secondary_interface_total [of env s2 "ifs ! 1"] show ?thesis
      by (auto simp add: and_then_def lift_def)
  next
    case False
    then show ?thesis by (simp add: lift_def)
  qed
  then obtain more s3 where b1: "?B s2 = (Inr more, s3)"
    by blast
  have "generate_network_config env config s
      = and_then ?A (\<lambda>first. and_then ?B (\<lambda>second.
          lift (Inr (network_doc (nameserver_block # first @ second))))) s1"
    by (rule generate_network_config_unfold [OF md ifs])
  also have "\<dots> = and_then ?B (\<lambda>second.
          lift (Inr (network_doc (nameserver_block # blocks @ second)))) s2"
    by (rule and_then_Inr [of ?A s1, OF a1])
  also have "\<dots> = lift (Inr (network_doc (nameserver_block # blocks @ more))) s3"
    by (rule and_then_Inr [of ?B s2, OF b1])
  finally show ?thesis by (simp add: lift_def)
qed

lemma netcfg_fields:
  "py_getitem (primary_netcfg name mac address gateway netmask) ''type'' = Inr (PStr ''physical'')"
  "py_getitem (primary_netcfg name mac address gateway netmask) ''mac_address'' = Inr mac"
  "py_getitem (primary_netcfg name mac address gateway netmask) ''subnets'' =
     Inr (PList [PDict [(''type'', PStr ''static''), (''control'', PStr ''auto''),
                        (''address'', address), (''gateway'', gateway), (''netmask'', netmask)],
                 PDict [(''type'', PStr ''dhcp6''), (''control'', PStr ''auto'')]])"
  "py_getitem (secondary_netcfg name mac address netmask) ''type'' = Inr (PStr ''physical'')"
  "py_getitem (secondary_netcfg name mac address netmask) ''mac_address'' = Inr mac"
  "py_getitem (secondary_netcfg name mac address netmask) ''subnets'' =
     Inr (PList [PDict [(''type'', PStr ''static''), (''control'', PStr ''auto''),
                        (''address'', address), (''netmask'', netmask)]])"
  by (simp_all add: primary_netcfg_def secondary_netcfg_def py_getitem_def)

lemma network_doc_config: "py_getitem (network_doc blocks) ''config'' = Inr (PList blocks)"
  by (simp add: network_doc_def py_getitem_def)

lemma static_subnet_no_gateway:
  "py_getitem (PDict [(''type'', PStr ''static''), (''control'', PStr ''auto''),
                      (''address'', address), (''netmask'', netmask)]) ''gateway'' = Inl KeyError"
  by (simp add: py_getitem_def)

lemma config_of_document:
  "py_getitem (PDict [(''version'', PInt 1), (''config'', PList blocks)]) ''config''
     = Inr (PList blocks)"
  "py_getitem (PDict [(''version'', PInt 1), (''config'', PList blocks)]) ''version''
     = Inr (PInt 1)"
  by (simp_all add: py_getitem_def)

text \<open>
  C7. Let the bundle be the one \<open>get_metadata\<close> returns and let its interface list
  be a list. Whenever \<open>generate_network_config\<close> returns a document, the document is
  the dictionary with \<open>version\<close> 1 and a \<open>config\<close> list, and that list, read from the
  document, is the nameserver block with the address \<open>108.61.10.10\<close> followed by
  exactly \<open>min 2 (length ifs)\<close> physical blocks, block \<open>i\<close> carrying the MAC of
  interface \<open>i\<close>: one block in all for an empty list, and nothing for the interfaces
  from index 2 on. It does return a document when the interfaces at index 0 and 1, as
  far as present, resolve in the mapping in use and carry the IPv4 keys the code reads.
\<close>

theorem generate_network_config_blocks:
  assumes md: "get_metadata env config s = (Inr md, s1)"
    and ifs: "py_getitem (v1 md) ''interfaces'' = Inr (PList ifs)"
  shows "(\<forall>net s'. generate_network_config env config s = (Inr net, s') \<longrightarrow>
            (\<exists>blocks.
               net = PDict [(''version'', PInt 1),
                            (''config'', PList
                               (PDict [(''type'', PStr ''nameserver''),
                                       (''address'', PList [PStr ''108.61.10.10''])] # blocks))]
               \<and> py_getitem net ''config'' =
                   Inr (PList
                          (PDict [(''type'', PStr ''nameserver''),
                                  (''address'', PList [PStr ''108.61.10.10''])] # blocks))
               \<and> length blocks = min 2 (length ifs)
               \<and> (\<forall>i<length blocks.
                     py_getitem (blocks ! i) ''type'' = Inr (PStr ''physical'')
                     \<and> py_getitem (blocks ! i) ''mac_address'' = py_getitem (ifs ! i) ''mac'')))
       \<and> ((ifs \<noteq> [] \<longrightarrow> resolves (nics_in_use env s1) (ifs ! 0)
                \<and> has_ipv4 [''address'', ''gateway'', ''netmask''] (ifs ! 0))
            \<and> (1 < length ifs \<longrightarrow> resolves (nics_in_use env s1) (ifs ! 1)
                \<and> has_ipv4 [''address'', ''netmask''] (ifs ! 1)) \<longrightarrow>
            (\<exists>net s'. generate_network_config env config s = (Inr net, s')))
       \<and> nameserver_block =
            PDict [(''type'', PStr ''nameserver''), (''address'', PList [PStr ''108.61.10.10''])]"
proof (intro conjI allI impI)
  fix net s'
  let ?ns = "PDict [(''type'', PStr ''nameserver''), (''address'', PList [PStr ''108.61.10.10''])]"
  assume ok: "generate_network_config env config s = (Inr net, s')"
  note shape = generate_network_config_Inr [OF md ifs ok]
  have doc: "network_doc (nameserver_block # blocks)
      = PDict [(''version'', PInt 1), (''config'', PList (?ns # blocks))]" for blocks
    by (simp add: network_doc_def nameserver_block_def)
  consider (none) "ifs = []" | (one) "length ifs = 1" | (more) "1 < length ifs"
    by (cases ifs) (auto simp add: less_Suc_eq_0_disj)
  then show "\<exists>blocks.
               net = PDict [(''version'', PInt 1), (''config'', PList (?ns # blocks))]
               \<and> py_getitem net ''config'' = Inr (PList (?ns # blocks))
               \<and> length blocks = min 2 (length ifs)
               \<and> (\<forall>i<length blocks.
                     py_getitem (blocks ! i) ''type'' = Inr (PStr ''physical'')
                     \<and> py_getitem (blocks ! i) ''mac_address'' = py_getitem (ifs ! i) ''mac'')"
  proof cases
    case none
    with shape have "net = PDict [(''version'', PInt 1), (''config'', PList (?ns # []))]"
      by (simp add: doc)
    with none show ?thesis by (simp add: config_of_document)
  next
    case one
    with shape obtain name mac address gateway netmask where
      "net = PDict [(''version'', PInt 1), (''config'', PList
          (?ns # [primary_netcfg name mac address gateway netmask]))]"
      "py_getitem (ifs ! 0) ''mac'' = Inr mac"
      by (auto simp add: doc)
    with one show ?thesis
      by (intro exI [of _ "[primary_netcfg name mac address gateway netmask]"])
         (auto simp add: netcfg_fields config_of_document)
  next
    case more
    with shape obtain name mac address gateway netmask name' mac' address' netmask' where
      "net = PDict [(''version'', PInt 1), (''config'', PList
         (?ns # [primary_netcfg name mac address gateway netmask,
                 secondary_netcfg name' mac' address' netmask']))]"
      "py_getitem (ifs ! 0) ''mac'' = Inr mac" "py_getitem (ifs ! 1) ''mac'' = Inr mac'"
      by (auto simp add: doc)
    with more show ?thesis
      by (intro exI [of _ "[primary_netcfg name mac address gateway netmask,
                            secondary_netcfg name' mac' address' netmask']"])
         (auto simp add: netcfg_fields config_of_document less_Suc_eq numeral_2_eq_2)
  qed
next
  assume "(ifs \<noteq> [] \<longrightarrow> resolves (nics_in_use env s1) (ifs ! 0)
                \<and> has_ipv4 [''address'', ''gateway'', ''netmask''] (ifs ! 0))
            \<and> (1 < length ifs \<longrightarrow> resolves (nics_in_use env s1) (ifs ! 1)
                \<and> has_ipv4 [''address'', ''netmask''] (ifs ! 1))"
  then show "\<exists>net s'. generate_network_config env config s = (Inr net, s')"
    using generate_network_config_total [OF md ifs] by blast
next
  show "nameserver_block =
      PDict [(''type'', PStr ''nameserver''), (''address'', PList [PStr ''108.61.10.10''])]"
    by (simp add: nameserver_block_def)
qed

text \<open>
  C8. Under the same conditions, in every document returned the block of interface 0
  has exactly two subnets, a static one whose address, gateway and netmask are the
  values of the interface's \<open>ipv4\<close> block and a \<open>dhcp6\<close> one with no address field, and
  the block of interface 1, when the list has two entries, has exactly one subnet, a
  static one with address and netmask in which the key \<open>gateway\<close> is absent.
\<close>

theorem generate_network_config_subnets:
  assumes md: "get_metadata env config s = (Inr md, s1)"
    and ifs: "py_getitem (v1 md) ''interfaces'' = Inr (PList ifs)"
  shows "(\<forall>net s'. generate_network_config env config s = (Inr net, s') \<longrightarrow>
            (\<exists>blocks. py_getitem net ''config'' = Inr (PList (nameserver_block # blocks))
               \<and> (ifs \<noteq> [] \<longrightarrow>
                    (\<exists>ipv4 address gateway netmask.
                       py_getitem (ifs ! 0) ''ipv4'' = Inr ipv4
                       \<and> py_getitem ipv4 ''address'' = Inr address
                       \<and> py_getitem ipv4 ''gateway'' = Inr gateway
                       \<and> py_getitem ipv4 ''netmask'' = Inr netmask
                       \<and> py_getitem (blocks ! 0) ''subnets'' =
                           Inr (PList [PDict [(''type'', PStr ''static''),
                                              (''control'', PStr ''auto''),
                                              (''address'', address),
                                              (''gateway'', gateway),
                                              (''netmask'', netmask)],
                                       PDict [(''type'', PStr ''dhcp6''),
                                              (''control'', PStr ''auto'')]])))
               \<and> (1 < length ifs \<longrightarrow>
                    (\<exists>ipv4 address netmask subnet.
                       py_getitem (ifs ! 1) ''ipv4'' = Inr ipv4
                       \<and> py_getitem ipv4 ''address'' = Inr address
                       \<and> py_getitem ipv4 ''netmask'' = Inr netmask
                       \<and> subnet = PDict [(''type'', PStr ''static''),
                                         (''control'', PStr ''auto''),
                                         (''address'', address),
                                         (''netmask'', netmask)]
                       \<and> py_getitem (blocks ! 1) ''subnets'' = Inr (PList [subnet])
                       \<and> py_getitem subnet ''gateway'' = Inl KeyError))))
       \<and> ((ifs \<noteq> [] \<longrightarrow> resolves (nics_in_use env s1) (ifs ! 0)
                \<and> has_ipv4 [''address'', ''gateway'', ''netmask''] (ifs ! 0))
            \<and> (1 < length ifs \<longrightarrow> resolves (nics_in_use env s1) (ifs ! 1)
                \<and> has_ipv4 [''address'', ''netmask''] (ifs ! 1)) \<longrightarrow>
            (\<exists>net s'. generate_network_config env config s = (Inr net, s')))"
proof (intro conjI allI impI)
  fix net s'
  assume ok: "generate_network_config env config s = (Inr net, s')"
  note shape = generate_network_config_Inr [OF md ifs ok]
  consider (none) "ifs = []" | (one) "length ifs = 1" | (more) "1 < length ifs"
    by (cases ifs) (auto simp add: less_Suc_eq_0_disj)
  then show "\<exists>blocks. py_getitem net ''config'' = Inr (PList (nameserver_block # blocks))
               \<and> (ifs \<noteq> [] \<longrightarrow>
                    (\<exists>ipv4 address gateway netmask.
                       py_getitem (ifs ! 0) ''ipv4'' = Inr ipv4
                       \<and> py_getitem ipv4 ''address'' = Inr address
                       \<and> py_getitem ipv4 ''gateway'' = Inr gateway
                       \<and> py_getitem ipv4 ''netmask'' = Inr netmask
                       \<and> py_getitem (blocks ! 0) ''subnets'' =
                           Inr (PList [PDict [(''type'', PStr ''static''),
                                              (''control'', PStr ''auto''),
                                              (''address'', address),
                                              (''gateway'', gateway),
                                              (''netmask'', netmask)],
                                       PDict [(''type'', PStr ''dhcp6''),
                                              (''control'', PStr ''auto'')]])))
               \<and> (1 < length ifs \<longrightarrow>
                    (\<exists>ipv4 address netmask subnet.
                       py_getitem (ifs ! 1) ''ipv4'' = Inr ipv4
                       \<and> py_getitem ipv4 ''address'' = Inr address
                       \<and> py_getitem ipv4 ''netmask'' = Inr netmask
                       \<and> subnet = PDict [(''type'', PStr ''static''),
                                         (''control'', PStr ''auto''),
                                         (''address'', address),
                                         (''netmask'', netmask)]
                       \<and> py_getitem (blocks ! 1) ''subnets'' = Inr (PList [subnet])
                       \<and> py_getitem subnet ''gateway'' = Inl KeyError))"
  proof cases
    case none
    with shape have "net = network_doc [nameserver_block]" by simp
    with none show ?thesis by (simp add: network_doc_config)
  next
    case one
    with shape obtain name mac ipv4 address gateway netmask where
      "net = network_doc (nameserver_block # [primary_netcfg name mac address gateway netmask])"
      "py_getitem (ifs ! 0) ''ipv4'' = Inr ipv4" "py_getitem ipv4 ''address'' = Inr address"
      "py_getitem ipv4 ''gateway'' = Inr gateway" "py_getitem ipv4 ''netmask'' = Inr netmask"
      by auto
    with one show ?thesis
      by (intro exI [of _ "[primary_netcfg name mac address gateway netmask]"])
         (simp add: netcfg_fields network_doc_config)
  next
    case more
    with shape obtain name mac ipv4 address gateway netmask name' mac' ipv4' address' netmask'
      where
      "net = network_doc (nameserver_block #
         [primary_netcfg name mac address gateway netmask,
          secondary_netcfg name' mac' address' netmask'])"
      "py_getitem (ifs ! 0) ''ipv4'' = Inr ipv4" "py_getitem ipv4 ''address'' = Inr address"
      "py_getitem ipv4 ''gateway'' = Inr gateway" "py_getitem ipv4 ''netmask'' = Inr netmask"
      "py_getitem (ifs ! 1) ''ipv4'' = Inr ipv4'" "py_getitem ipv4' ''address'' = Inr address'"
      "py_getitem ipv4' ''netmask'' = Inr netmask'"
      by auto
    with more show ?thesis
      by (intro exI [of _ "[primary_netcfg name mac address gateway netmask,
                            secondary_netcfg name' mac' address' netmask']"])
         (simp add: netcfg_fields network_doc_config static_subnet_no_gateway)
  qed
next
  assume "(ifs \<noteq> [] \<longrightarrow> resolves (nics_in_use env s1) (ifs ! 0)
                \<and> has_ipv4 [''address'', ''gateway'', ''netmask''] (ifs ! 0))
            \<and> (1 < length ifs \<longrightarrow> resolves (nics_in_use env s1) (ifs ! 1)
                \<and> has_ipv4 [''address'', ''netmask''] (ifs ! 1))"
  then show "\<exists>net s'. generate_network_config env config s = (Inr net, s')"
    using generate_network_config_total [OF md ifs] by blast
qed

lemma service_get_metadata_state:
  "MAC_TO_NICS (snd (get_metadata (service script [] nics) request_params fresh_state)) = None"
  by (simp add: service_eval)

lemma service_interfaces:
  "py_getitem (v1 (test_bundle script)) ''interfaces''
     = Inr (PList [public_interface, private_interface])"
  by (simp add: test_bundle_def instance_doc_def py_getitem_def)

lemma service_preconditions:
  assumes "MAC_TO_NICS s1 = None"
  shows "([public_interface, private_interface] \<noteq> [] \<longrightarrow>
           resolves (nics_in_use (service script [] INTERFACE_MAP) s1)
             ([public_interface, private_interface] ! 0)
           \<and> has_ipv4 [''address'', ''gateway'', ''netmask'']
               ([public_interface, private_interface] ! 0))
       \<and> (1 < length [public_interface, private_interface] \<longrightarrow>
           resolves (nics_in_use (service script [] INTERFACE_MAP) s1)
             ([public_interface, private_interface] ! 1)
           \<and> has_ipv4 [''address'', ''netmask''] ([public_interface, private_interface] ! 1))"
  using assms
  by (simp add: nics_in_use_def service_def resolves_def has_ipv4_def py_getitem_def
      INTERFACE_MAP_def public_interface_def private_interface_def)

theorem generate_network_config_blocks_witness:
  "\<exists>net blocks.
      fst (generate_network_config (service '''' [] INTERFACE_MAP) request_params fresh_state)
        = Inr net
      \<and> py_getitem net ''version'' = Inr (PInt 1)
      \<and> py_getitem net ''config'' =
          Inr (PList (PDict [(''type'', PStr ''nameserver''),
                             (''address'', PList [PStr ''108.61.10.10''])] # blocks))
      \<and> length blocks = 2
      \<and> py_getitem (blocks ! 0) ''type'' = Inr (PStr ''physical'')
      \<and> py_getitem (blocks ! 0) ''mac_address'' = Inr (PStr ''56:00:03:1b:4e:ca'')
      \<and> py_getitem (blocks ! 1) ''type'' = Inr (PStr ''physical'')
      \<and> py_getitem (blocks ! 1) ''mac_address'' = Inr (PStr ''5a:00:03:1b:4e:ca'')"
proof -
  let ?env = "service '''' [] INTERFACE_MAP"
  let ?ns = "PDict [(''type'', PStr ''nameserver''), (''address'', PList [PStr ''108.61.10.10''])]"
  define s1 where "s1 = snd (get_metadata ?env request_params fresh_state)"
  have md: "get_metadata ?env request_params fresh_state = (Inr (test_bundle ''''), s1)"
    unfolding s1_def using service_get_metadata [of "''''" INTERFACE_MAP]
    by (metis prod.collapse)
  have cache: "MAC_TO_NICS s1 = None"
    unfolding s1_def by (rule service_get_metadata_state)
  note claim = generate_network_config_blocks [OF md service_interfaces]
  from claim service_preconditions [OF cache, of "''''"]
  obtain net s' where ok: "generate_network_config ?env request_params fresh_state = (Inr net, s')"
    by blast
  with claim obtain blocks where
    doc: "net = PDict [(''version'', PInt 1), (''config'', PList (?ns # blocks))]"
    and config: "py_getitem net ''config'' = Inr (PList (?ns # blocks))"
    and len: "length blocks = min 2 (length [public_interface, private_interface])"
    and each: "\<forall>i<length blocks. py_getitem (blocks ! i) ''type'' = Inr (PStr ''physical'')
        \<and> py_getitem (blocks ! i) ''mac_address''
            = py_getitem ([public_interface, private_interface] ! i) ''mac''"
    by blast
  from doc have version: "py_getitem net ''version'' = Inr (PInt 1)"
    by (simp add: config_of_document)
  from len each have types: "py_getitem (blocks ! 0) ''type'' = Inr (PStr ''physical'')"
    "py_getitem (blocks ! 1) ''type'' = Inr (PStr ''physical'')"
    and "py_getitem (blocks ! 0) ''mac_address'' = py_getitem public_interface ''mac''"
    and "py_getitem (blocks ! 1) ''mac_address'' = py_getitem private_interface ''mac''"
    by auto
  then have macs: "py_getitem (blocks ! 0) ''mac_address'' = Inr (PStr ''56:00:03:1b:4e:ca'')"
    "py_getitem (blocks ! 1) ''mac_address'' = Inr (PStr ''5a:00:03:1b:4e:ca'')"
    by (simp_all add: public_interface_def private_interface_def py_getitem_def)
  from ok version config len types macs show ?thesis by auto
qed

theorem generate_network_config_subnets_witness:
  "\<exists>net blocks.
      fst (generate_network_config (service '''' [] INTERFACE_MAP) request_params fresh_state)
        = Inr net
      \<and> py_getitem net ''config'' = Inr (PList (nameserver_block # blocks))
      \<and> py_getitem (blocks ! 0) ''subnets'' =
          Inr (PList [PDict [(''type'', PStr ''static''), (''control'', PStr ''auto''),
                             (''address'', PStr ''45.76.7.171''),
                             (''gateway'', PStr ''45.76.6.1''),
                             (''netmask'', PStr ''255.255.254.0'')],
                      PDict [(''type'', PStr ''dhcp6''), (''control'', PStr ''auto'')]])
      \<and> py_getitem (blocks ! 1) ''subnets'' =
          Inr (PList [PDict [(''type'', PStr ''static''), (''control'', PStr ''auto''),
                             (''address'', PStr ''10.1.112.3''),
                             (''netmask'', PStr ''255.255.240.0'')]])"
proof -
  let ?env = "service '''' [] INTERFACE_MAP"
  define s1 where "s1 = snd (get_metadata ?env request_params fresh_state)"
  have md: "get_metadata ?env request_params fresh_state = (Inr (test_bundle ''''), s1)"
    unfolding s1_def using service_get_metadata [of "''''" INTERFACE_MAP]
    by (metis prod.collapse)
  have cache: "MAC_TO_NICS s1 = None"
    unfolding s1_def by (rule service_get_metadata_state)
  note claim = generate_network_config_subnets [OF md service_interfaces]
  from claim service_preconditions [OF cache, of "''''"]
  obtain net s' where ok: "generate_network_config ?env request_params fresh_state = (Inr net, s')"
    by blast
  with claim obtain blocks where config:
      "py_getitem net ''config'' = Inr (PList (nameserver_block # blocks))"
    and primary: "\<exists>ipv4 address gateway netmask.
        py_getitem ([public_interface, private_interface] ! 0) ''ipv4'' = Inr ipv4
        \<and> py_getitem ipv4 ''address'' = Inr address
        \<and> py_getitem ipv4 ''gateway'' = Inr gateway
        \<and> py_getitem ipv4 ''netmask'' = Inr netmask
        \<and> py_getitem (blocks ! 0) ''subnets'' =
            Inr (PList [PDict [(''type'', PStr ''static''), (''control'', PStr ''auto''),
                               (''address'', address), (''gateway'', gateway),
                               (''netmask'', netmask)],
                        PDict [(''type'', PStr ''dhcp6''), (''control'', PStr ''auto'')]])"
    and secondary: "\<exists>ipv4 address netmask subnet.
        py_getitem ([public_interface, private_interface] ! 1) ''ipv4'' = Inr ipv4
        \<and> py_getitem ipv4 ''address'' = Inr address
        \<and> py_getitem ipv4 ''netmask'' = Inr netmask
        \<and> subnet = PDict [(''type'', PStr ''static''), (''control'', PStr ''auto''),
                          (''address'', address), (''netmask'', netmask)]
        \<and> py_getitem (blocks ! 1) ''subnets'' = Inr (PList [subnet])
        \<and> py_getitem subnet ''gateway'' = Inl KeyError"
    by fastforce
  from primary have "py_getitem (blocks ! 0) ''subnets'' =
          Inr (PList [PDict [(''type'', PStr ''static''), (''control'', PStr ''auto''),
                             (''address'', PStr ''45.76.7.171''),
                             (''gateway'', PStr ''45.76.6.1''),
                             (''netmask'', PStr ''255.255.254.0'')],
                      PDict [(''type'', PStr ''dhcp6''), (''control'', PStr ''auto'')]])"
    by (auto simp add: public_interface_def py_getitem_def)
  moreover from secondary have "py_getitem (blocks ! 1) ''subnets'' =
          Inr (PList [PDict [(''type'', PStr ''static''), (''control'', PStr ''auto''),
                             (''address'', PStr ''10.1.112.3''),
                             (''netmask'', PStr ''255.255.240.0'')]])"
    by (auto simp add: private_interface_def py_getitem_def)
  ultimately show ?thesis using ok config by auto
qed

section \<open>Vendor configuration synthesizer: results\<close>

lemma length_b64_alphabet: "length b64_alphabet = 64"
  by (simp add: b64_alphabet_def)

lemma b64_alphabet_ascii: "list_all (\<lambda>c. (of_char c :: nat) < 128) b64_alphabet"
  by (simp add: b64_alphabet_def)

lemma b64_sym_ascii: "(of_char (b64_sym n) :: nat) < 128"
proof -
  have "n mod 64 < length b64_alphabet" by (simp add: length_b64_alphabet)
  with b64_alphabet_ascii show ?thesis
    unfolding b64_sym_def list_all_length by blast
qed

lemma is_ascii_b64encode: "is_ascii (b64encode bytes)"
  by (induction bytes rule: b64encode.induct)
     (simp_all add: is_ascii_def Let_def b64_sym_ascii)

lemma b64encode_nonempty: "bytes \<noteq> [] \<Longrightarrow> b64encode bytes \<noteq> []"
  by (cases bytes rule: b64encode.cases) (simp_all add: Let_def)

lemma b64encode_example: "b64encode ''echo hi'' = ''ZWNobyBoaQ==''"
  by (simp add: b64_sym_def b64_alphabet_def)

text \<open>The script as it reaches the template, for each kind of startup script.\<close>

lemma generate_config_unfold:
  assumes md: "get_metadata env config s = (Inr md, s1)"
  shows "generate_config env config s =
     and_then
       (lift (if startup_script md \<noteq> '''' then
                (case encode_ascii (startup_script md) of
                   Inl e \<Rightarrow> Inl e
                 | Inr bytes \<Rightarrow> decode_ascii (b64encode bytes))
              else Inr (startup_script md))) (\<lambda>script.
     and_then (generate_network_config env config) (\<lambda>network.
       let template = config_template (root_password md) network in
       if script \<noteq> '''' then
         (let template1 = dict_set template ''write_files'' (PList [write_files_entry script]) in
          and_then (lift (py_getitem (PDict template1) ''runcmd'')) (\<lambda>runcmd.
          and_then (lift (py_add runcmd
                       (PList [PStr ''/tmp/startup-vultr.sh &> /var/log/vultr-boot.log'',
                               PStr ''rm -f /tmp/startup-vultr.sh'']))) (\<lambda>runcmd1.
            lift (Inr (PDict (dict_set template1 ''runcmd'' runcmd1))))))
       else lift (Inr (PDict template)))) s1"
  unfolding generate_config_def
  by (rule and_then_Inr [of "get_metadata env config" s, OF md])

lemma generate_config_not_ascii:
  assumes md: "get_metadata env config s = (Inr md, s1)"
    and script: "startup_script md \<noteq> ''''" "\<not> is_ascii (startup_script md)"
  shows "generate_config env config s = (Inl UnicodeEncodeError, s1)"
  unfolding generate_config_unfold [OF md] using script by (simp add: encode_ascii_def)

lemma template_has_no_runcmd:
  "py_getitem (PDict (dict_set (config_template rootpw network) ''write_files'' entry)) ''runcmd''
     = Inl KeyError"
  by (simp add: config_template_def py_getitem_def)

lemma generate_config_script:
  assumes md: "get_metadata env config s = (Inr md, s1)"
    and script: "startup_script md \<noteq> ''''" "is_ascii (startup_script md)"
    and network: "generate_network_config env config s1 = (Inr network, s2)"
  shows "generate_config env config s = (Inl KeyError, s2)"
proof -
  have "decode_ascii (b64encode (startup_script md)) = Inr (b64encode (startup_script md))"
    by (simp add: decode_ascii_def is_ascii_b64encode)
  moreover have "b64encode (startup_script md) \<noteq> ''''"
    using script(1) by (rule b64encode_nonempty)
  ultimately show ?thesis
    unfolding generate_config_unfold [OF md] using script
    by (simp add: encode_ascii_def
        and_then_Inr [of "generate_network_config env config" s1, OF network]
        template_has_no_runcmd)
qed

lemma generate_config_no_script:
  assumes md: "get_metadata env config s = (Inr md, s1)"
    and script: "startup_script md = ''''"
    and network: "generate_network_config env config s1 = (Inr network, s2)"
  shows "generate_config env config s
           = (Inr (PDict (config_template (root_password md) network)), s2)"
  unfolding generate_config_unfold [OF md] using script
  by (simp add: and_then_Inr [of "generate_network_config env config" s1, OF network] lift_def)

text \<open>
  C10. \<open>generate_config\<close> produces a document only for a startup script that is empty
  or made of ASCII characters. For the bundle \<open>get_metadata\<close> returns: when the script
  is not empty and holds a character outside ASCII, \<open>script.encode("ascii")\<close> fails and
  \<open>generate_config\<close> raises \<open>UnicodeEncodeError\<close>, in the state \<open>get_metadata\<close> left,
  before the network configuration is generated; and whenever a document is returned
  the script is empty or ASCII.
\<close>

theorem generate_config_ascii_only:
  assumes md: "get_metadata env config s = (Inr md, s1)"
  shows "(startup_script md \<noteq> '''' \<and> \<not> is_ascii (startup_script md) \<longrightarrow>
            generate_config env config s = (Inl UnicodeEncodeError, s1))
       \<and> (\<forall>doc s'. generate_config env config s = (Inr doc, s') \<longrightarrow>
            startup_script md = '''' \<or> is_ascii (startup_script md))"
proof (intro conjI allI impI)
  assume "startup_script md \<noteq> '''' \<and> \<not> is_ascii (startup_script md)"
  then show "generate_config env config s = (Inl UnicodeEncodeError, s1)"
    using generate_config_not_ascii [OF md] by blast
next
  fix doc s'
  assume ok: "generate_config env config s = (Inr doc, s')"
  show "startup_script md = '''' \<or> is_ascii (startup_script md)"
  proof (rule ccontr)
    assume "\<not> (startup_script md = '''' \<or> is_ascii (startup_script md))"
    then have "generate_config env config s = (Inl UnicodeEncodeError, s1)"
      using generate_config_not_ascii [OF md] by blast
    with ok show False by simp
  qed
qed

lemma service_generate_network_config:
  assumes "get_metadata (service script [] INTERFACE_MAP) request_params s
             = (Inr (test_bundle script), s1)"
    and "MAC_TO_NICS s1 = None"
  shows "\<exists>network s2. generate_network_config (service script [] INTERFACE_MAP)
           request_params s1 = (Inr network, s2)"
proof -
  from assms(1) have "METADATA s1 = Some (test_bundle script)" by (rule get_metadata_Inr)
  then have "get_metadata (service script [] INTERFACE_MAP) request_params s1
      = (Inr (test_bundle script), s1)"
    by (rule get_metadata_cached)
  from generate_network_config_total [OF this service_interfaces]
    service_preconditions [OF assms(2), of script]
  show ?thesis by blast
qed

lemma template_keys:
  "py_getitem (PDict (config_template rootpw network)) ''write_files'' = Inl KeyError"
  "py_getitem (PDict (config_template rootpw network)) ''runcmd'' = Inl KeyError"
  "py_getitem (PDict (config_template rootpw network)) ''network'' = Inr network"
  by (simp_all add: config_template_def py_getitem_def)

text \<open>
  C1. With a non-empty startup script the output is claimed to contain the
  write-file directive and the two run-command entries. The metadata service of the
  unit tests, serving the startup script \<open>echo hi\<close> (non-empty, ASCII), makes
  \<open>generate_config\<close> raise \<open>KeyError\<close>: the template has no \<open>runcmd\<close> entry to extend,
  and no document is produced. With the empty script the document has neither a
  \<open>write_files\<close> nor a \<open>runcmd\<close> key.
\<close>

theorem generate_config_startup_script_raises:
  "''echo hi'' \<noteq> '''' \<and> is_ascii ''echo hi''
   \<and> fst (generate_config (service ''echo hi'' [] INTERFACE_MAP) request_params fresh_state)
       = Inl KeyError
   \<and> (\<exists>doc. fst (generate_config (service '''' [] INTERFACE_MAP) request_params fresh_state)
               = Inr doc
            \<and> py_getitem doc ''write_files'' = Inl KeyError
            \<and> py_getitem doc ''runcmd'' = Inl KeyError)"
proof -
  let ?env = "\<lambda>script. service script [] INTERFACE_MAP"
  define s1 where "s1 = (\<lambda>script. snd (get_metadata (?env script) request_params fresh_state))"
  have md: "get_metadata (?env script) request_params fresh_state
      = (Inr (test_bundle script), s1 script)" for script
    unfolding s1_def using service_get_metadata [of script INTERFACE_MAP]
    by (metis prod.collapse)
  have cache: "MAC_TO_NICS (s1 script) = None" for script
    unfolding s1_def by (rule service_get_metadata_state)
  have script: "startup_script (test_bundle script) = script" for script
    by (simp add: test_bundle_def)
  have ascii: "is_ascii ''echo hi''" by (simp add: is_ascii_def)
  obtain network s2 where nw:
    "generate_network_config (?env ''echo hi'') request_params (s1 ''echo hi'')
       = (Inr network, s2)"
    using service_generate_network_config [OF md cache] by blast
  have "generate_config (?env ''echo hi'') request_params fresh_state = (Inl KeyError, s2)"
    by (rule generate_config_script [OF md _ _ nw]) (simp_all add: script ascii)
  then have raises: "fst (generate_config (?env ''echo hi'') request_params fresh_state)
      = Inl KeyError"
    by simp
  obtain network' s2' where nw':
    "generate_network_config (?env '''') request_params (s1 '''') = (Inr network', s2')"
    using service_generate_network_config [OF md cache] by blast
  have "generate_config (?env '''') request_params fresh_state
      = (Inr (PDict (config_template (root_password (test_bundle '''')) network')), s2')"
    by (rule generate_config_no_script [OF md _ nw']) (simp add: script)
  then have "\<exists>doc. fst (generate_config (?env '''') request_params fresh_state) = Inr doc
            \<and> py_getitem doc ''write_files'' = Inl KeyError
            \<and> py_getitem doc ''runcmd'' = Inl KeyError"
    by (simp add: template_keys)
  with raises ascii show ?thesis by simp
qed

theorem generate_config_ascii_only_witness:
  "\<not> is_ascii (''caf'' @ [CHR 0xE9])
   \<and> fst (generate_config (service (''caf'' @ [CHR 0xE9]) [] INTERFACE_MAP) request_params
          fresh_state) = Inl UnicodeEncodeError
   \<and> (\<exists>doc. fst (generate_config (service '''' [] INTERFACE_MAP) request_params fresh_state)
               = Inr doc)"
proof -
  let ?env = "\<lambda>script. service script [] INTERFACE_MAP"
  define s1 where "s1 = (\<lambda>script. snd (get_metadata (?env script) request_params fresh_state))"
  have md: "get_metadata (?env script) request_params fresh_state
      = (Inr (test_bundle script), s1 script)" for script
    unfolding s1_def using service_get_metadata [of script INTERFACE_MAP]
    by (metis prod.collapse)
  have cache: "MAC_TO_NICS (s1 script) = None" for script
    unfolding s1_def by (rule service_get_metadata_state)
  have script: "startup_script (test_bundle script) = script" for script
    by (simp add: test_bundle_def)
  have bad: "''caf'' @ [CHR 0xE9] \<noteq> '''' \<and> \<not> is_ascii (''caf'' @ [CHR 0xE9])"
    by (simp add: is_ascii_def)
  with generate_config_ascii_only [OF md [of "''caf'' @ [CHR 0xE9]"]]
  have raises: "generate_config (?env (''caf'' @ [CHR 0xE9])) request_params fresh_state
      = (Inl UnicodeEncodeError, s1 (''caf'' @ [CHR 0xE9]))"
    by (simp only: script) blast
  obtain network s2 where nw:
    "generate_network_config (?env '''') request_params (s1 '''') = (Inr network, s2)"
    using service_generate_network_config [OF md cache] by blast
  have ok: "generate_config (?env '''') request_params fresh_state
      = (Inr (PDict (config_template (root_password (test_bundle '''')) network)), s2)"
    by (rule generate_config_no_script [OF md _ nw]) (simp add: script)
  with generate_config_ascii_only [OF md [of "''''"]]
  have "startup_script (test_bundle '''') = '''' \<or> is_ascii (startup_script (test_bundle ''''))"
    by blast
  with raises ok bad show ?thesis by simp
qed

end
